theory Spec2Isabelle
  imports Main "HOL-Library.Word"
begin

section \<open>The hex memory view plugin (hex\_memory\_plugin.cpp)\<close>

text \<open>
  The plugin keeps two heap buffers of 128 KiB (\<open>data\<close>, \<open>oldData\<close>), two text fields of
  64 chars, the pair \<open>(sa, size)\<close> compared against the parsed text on every cycle, a
  \<open>requestData\<close> flag and the last exception location. The model follows the C++ source
  function by function. Pointers are addresses (\<open>nat\<close>, with 0 for \<open>NULL\<close>) into a flat
  byte memory, so that a \<open>memcpy\<close> longer than an allocation writes where the C code writes.
  An access outside an allocation is undefined in C: the flat memory performs it, which
  shows an overrun for what it is, and the properties of cycles that work are stated for
  accesses inside the buffers. A division by zero ends the cycle with a fault.
\<close>

subsection \<open>Memory\<close>

type_synonym memory = "nat \<Rightarrow> 8 word"

text \<open>\<open>memset(p, v, n)\<close>.\<close>

definition memset :: "nat \<Rightarrow> 8 word \<Rightarrow> nat \<Rightarrow> memory \<Rightarrow> memory" where
  "memset p v n m = (\<lambda>a. if p \<le> a \<and> a < p + n then v else m a)"

text \<open>The \<open>n\<close> bytes at \<open>src\<close>, as a \<open>memcpy\<close> reads them.\<close>

definition read_bytes :: "nat \<Rightarrow> nat \<Rightarrow> memory \<Rightarrow> 8 word list" where
  "read_bytes src n m = map (\<lambda>i. m (src + i)) [0..<n]"

text \<open>
  \<open>memcpy(dst, src, n)\<close>, given the \<open>n\<close> source bytes: byte \<open>i\<close> lands at \<open>dst + i\<close>, with
  no regard to where the allocation at \<open>dst\<close> ends.
\<close>

definition memcpy :: "nat \<Rightarrow> 8 word list \<Rightarrow> memory \<Rightarrow> memory" where
  "memcpy dst bytes m = (\<lambda>a. if dst \<le> a \<and> a < dst + length bytes then bytes ! (a - dst) else m a)"

text \<open>The size of each of the two buffers: \<open>malloc(128 * 1024)\<close>.\<close>

definition capacity :: nat where
  "capacity = 128 * 1024"

subsection \<open>\<open>strtol(text, 0, 16)\<close>\<close>

text \<open>
  The C library's \<open>strtol\<close> at base 16, for a 64-bit \<open>long\<close>: leading white space is
  skipped, then an optional sign and an optional \<open>0x\<close>/\<open>0X\<close>, then the longest run of
  hexadecimal digits is converted. With no digit the result is 0, and no error is reported
  to a caller that passes a null end pointer, as \<open>drawUI\<close> does. A value out of range is
  \<open>LONG_MAX\<close> or \<open>LONG_MIN\<close>.
\<close>

definition isspace :: "char \<Rightarrow> bool" where
  "isspace c = (let n = (of_char c :: nat) in n = 32 \<or> (9 \<le> n \<and> n \<le> 13))"

definition hexval :: "char \<Rightarrow> nat option" where
  "hexval c =
     (let n = (of_char c :: nat)
      in if 48 \<le> n \<and> n \<le> 57 then Some (n - 48)
         else if 97 \<le> n \<and> n \<le> 102 then Some (n - 87)
         else if 65 \<le> n \<and> n \<le> 70 then Some (n - 55)
         else None)"

fun strtol_digits :: "nat \<Rightarrow> string \<Rightarrow> nat" where
  "strtol_digits acc [] = acc"
| "strtol_digits acc (c # cs) =
     (case hexval c of None \<Rightarrow> acc | Some d \<Rightarrow> strtol_digits (16 * acc + d) cs)"

definition LONG_MAX :: int where
  "LONG_MAX = 2 ^ 63 - 1"

definition LONG_MIN :: int where
  "LONG_MIN = - (2 ^ 63)"

definition strtol_sign :: "string \<Rightarrow> bool \<times> string" where
  "strtol_sign s =
     (case s of
        [] \<Rightarrow> (False, s)
      | c # r \<Rightarrow> if c = CHR ''-'' then (True, r) else if c = CHR ''+'' then (False, r) else (False, s))"

definition strtol_prefix :: "string \<Rightarrow> string" where
  "strtol_prefix s =
     (case s of
        a # b # r \<Rightarrow> if a = CHR ''0'' \<and> (b = CHR ''x'' \<or> b = CHR ''X'') then r else s
      | _ \<Rightarrow> s)"

definition strtol16 :: "string \<Rightarrow> int" where
  "strtol16 s =
     (let (neg, s1) = strtol_sign (dropWhile isspace s);
          v = int (strtol_digits 0 (strtol_prefix s1))
      in if neg then (if - v < LONG_MIN then LONG_MIN else - v)
         else (if LONG_MAX < v then LONG_MAX else v))"

subsection \<open>Events\<close>

text \<open>
  Modelled from the spec: the reader and writer of the event stream (\<open>PDRead_get_event\<close>,
  \<open>PDRead_find_u64\<close>, \<open>PDRead_find_data\<close>, \<open>PDWrite_u64\<close>, declared in pd\_readwrite.h) are
  not among the sources. An event is its type and its named fields; a lookup of a field
  that is absent leaves the caller's variable as it was, and \<open>PDRead_find_data\<close> then
  answers \<open>PDReadStatus_NotFound\<close>. The inbound batch is the list of events that
  \<open>PDRead_get_event\<close> hands out before it returns 0.
\<close>

datatype PDEventType =
    PDEventType_GetMemory
  | PDEventType_SetMemory
  | PDEventType_SetExceptionLocation
  | PDEventType_Other nat

datatype PDEvent =
  Event (event_type: PDEventType) (u64_fields: "(string \<times> 64 word) list")
        (data_fields: "(string \<times> 8 word list) list")

definition PDRead_find_u64 :: "PDEvent \<Rightarrow> string \<Rightarrow> 64 word option" where
  "PDRead_find_u64 ev key = map_of (u64_fields ev) key"

definition PDRead_find_data :: "PDEvent \<Rightarrow> string \<Rightarrow> 8 word list option" where
  "PDRead_find_data ev key = map_of (data_fields ev) key"

subsection \<open>The instance\<close>

text \<open>
  The struct \<open>HexMemoryData\<close>. A text field is the C string its 64-char array holds, the
  chars before the terminating NUL; \<open>size\<close> is spelt \<open>size'\<close>.
\<close>

record HexMemoryData =
  data :: nat
  oldData :: nat
  dataSize :: int
  addressSize :: int
  startAddress :: string
  sizeText :: string
  requestData :: bool
  sa :: "64 word"
  size' :: "64 word"
  exceptionLocation :: "64 word"

text \<open>
  \<open>createInstance\<close>: the two addresses are what \<open>malloc\<close> returned for the buffers and \<open>m\<close> is
  the memory before the call. The struct is zeroed, the text fields and \<open>(sa, size)\<close> get
  their defaults and both buffers are filled with \<open>0xff\<close>. A null result of \<open>malloc\<close>
  would make the \<open>memset\<close> write through a null pointer: the model has no instance then.
\<close>

definition createInstance :: "nat \<Rightarrow> nat \<Rightarrow> memory \<Rightarrow> (HexMemoryData \<times> memory) option" where
  "createInstance p_data p_oldData m =
     (if p_data = 0 \<or> p_oldData = 0 then None
      else Some
        (\<lparr> data = p_data, oldData = p_oldData, dataSize = 0, addressSize = 4,
            startAddress = ''0x00000000'', sizeText = ''1024'', requestData = False,
            sa = 0, size' = 1024, exceptionLocation = 0 \<rparr>,
         memset p_oldData 0xff capacity (memset p_data 0xff capacity m)))"

subsection \<open>Inbound events\<close>

text \<open>
  \<open>updateMemory\<close>: without a \<open>data\<close> field nothing happens. Otherwise \<open>sa\<close> becomes the
  event's address (0 when the field is absent), \<open>size\<close> bytes of \<open>data\<close> are copied to
  \<open>oldData\<close> and the payload is copied to \<open>data\<close>, where \<open>size\<close> is the payload's length.
  There is no comparison of \<open>size\<close> with the 128 KiB of the buffers.
\<close>

definition updateMemory :: "HexMemoryData \<times> memory \<Rightarrow> PDEvent \<Rightarrow> HexMemoryData \<times> memory" where
  "updateMemory st reader =
     (let (user_data, m) = st;
          address = (case PDRead_find_u64 reader ''address'' of None \<Rightarrow> 0 | Some a \<Rightarrow> a)
      in case PDRead_find_data reader ''data'' of
           None \<Rightarrow> (user_data, m)
         | Some payload \<Rightarrow>
             (let n = length payload;
                  user_data' = user_data\<lparr>sa := address\<rparr>;
                  m1 = memcpy (oldData user_data') (read_bytes (data user_data') n m) m;
                  m2 = memcpy (data user_data') payload m1
              in (user_data', m2)))"

text \<open>\<open>updateExceptionLocation\<close>: an address equal to the stored one changes nothing.\<close>

definition updateExceptionLocation :: "HexMemoryData \<Rightarrow> PDEvent \<Rightarrow> HexMemoryData" where
  "updateExceptionLocation d reader =
     (let address = (case PDRead_find_u64 reader ''address'' of None \<Rightarrow> 0 | Some a \<Rightarrow> a)
      in if exceptionLocation d = address then d
         else d\<lparr>requestData := True, exceptionLocation := address\<rparr>)"

text \<open>The \<open>switch\<close> of \<open>update\<close>: every other event type is skipped.\<close>

definition dispatch :: "HexMemoryData \<times> memory \<Rightarrow> PDEvent \<Rightarrow> HexMemoryData \<times> memory" where
  "dispatch st ev =
     (case event_type ev of
        PDEventType_SetMemory \<Rightarrow> updateMemory st ev
      | PDEventType_SetExceptionLocation \<Rightarrow> (updateExceptionLocation (fst st) ev, snd st)
      | _ \<Rightarrow> st)"

text \<open>The \<open>while\<close> loop of \<open>update\<close> over the inbound batch.\<close>

fun process_events :: "HexMemoryData \<times> memory \<Rightarrow> PDEvent list \<Rightarrow> HexMemoryData \<times> memory" where
  "process_events st [] = st"
| "process_events st (ev # evs) = process_events (dispatch st ev) evs"

subsection \<open>The user interface\<close>

text \<open>
  Modelled from the spec: the widget toolkit behind \<open>PDUI\<close> is not among the sources. What
  the plugin sees of it in one cycle is what the two \<open>input_text\<close> widgets leave in the text
  buffers and what \<open>get_window_size\<close> answers. An edit is \<open>None\<close> when the user did not
  edit the field, otherwise the edited text, cut to what the buffer of \<open>buf_size\<close> chars
  holds before its terminating NUL. The address widget lets only hexadecimal digits be
  typed; the model admits any text in both fields. The width of the window, a \<open>float\<close> in
  C, is taken in whole pixels.
\<close>

record PDUI =
  edit_startAddress :: "string option"
  edit_sizeText :: "string option"
  windowSize_x :: nat

definition input_text :: "string option \<Rightarrow> nat \<Rightarrow> string \<Rightarrow> string" where
  "input_text edit buf_size buf = (case edit of None \<Rightarrow> buf | Some t \<Rightarrow> take (buf_size - 1) t)"

subsection \<open>Drawing\<close>

text \<open>\<open>sprintf\<close> with \<open>%0kx\<close>: the \<open>k\<close> low hexadecimal digits of \<open>n\<close>, in lower case.\<close>

definition hex_digit :: "nat \<Rightarrow> char" where
  "hex_digit d = ''0123456789abcdef'' ! (d mod 16)"

fun hex_fixed :: "nat \<Rightarrow> nat \<Rightarrow> string" where
  "hex_fixed 0 n = []"
| "hex_fixed (Suc k) n = hex_fixed k (n div 16) @ [hex_digit n]"

text \<open>
  \<open>sprintf\<close> with \<open>%16llx\<close>: the hexadecimal digits of a 64-bit value without leading
  zeros, padded with spaces on the left to 16 chars.
\<close>

definition hex_padded :: "nat \<Rightarrow> string" where
  "hex_padded n =
     (let digits = dropWhile (\<lambda>c. c = CHR ''0'') (hex_fixed 16 n);
          shown = (if digits = [] then ''0'' else digits)
      in replicate (16 - length shown) CHR '' '' @ shown)"

text \<open>
  \<open>getAddressLine\<close>: the address, cast to the width \<open>adressSize\<close> names. For another
  value of \<open>adressSize\<close> the \<open>switch\<close> writes nothing and the text stays empty.
\<close>

definition getAddressLine :: "64 word \<Rightarrow> int \<Rightarrow> string" where
  "getAddressLine address adressSize =
     (if adressSize = 1 then ''0x'' @ hex_fixed 2 (unat (ucast address :: 8 word))
      else if adressSize = 2 then ''0x'' @ hex_fixed 4 (unat (ucast address :: 16 word))
      else if adressSize = 4 then ''0x'' @ hex_fixed 8 (unat (ucast address :: 32 word))
      else if adressSize = 8 then ''0x'' @ hex_padded (unat address)
      else [])"

text \<open>
  One drawn line: the address text with its colon, then every byte of the line as two
  hexadecimal digits, then every byte as a char, a dot standing for a byte outside
  \<open>32 \<dots> 127\<close>. The flag of a cell says that it is drawn in the colour of a change,
  which is so when the byte differs from the byte of \<open>oldData\<close> at the same offset.
\<close>

record Row =
  row_address :: string
  row_hex :: "(string \<times> bool) list"
  row_chars :: "(char \<times> bool) list"

definition printable :: "8 word \<Rightarrow> char" where
  "printable c = (if 32 \<le> unat c \<and> unat c < 128 then char_of (unat c) else CHR ''.'')"

text \<open>
  \<open>drawData\<close>: at most 1024 bytes per line; line \<open>i\<close> shows the bytes at the offsets from
  \<open>i * charsPerLine\<close> on of both buffers, whatever \<open>lineCount\<close> is, and the address grows
  by \<open>(uint32_t)charsPerLine\<close> from line to line.
\<close>

definition drawData :: "HexMemoryData \<times> memory \<Rightarrow> int \<Rightarrow> int \<Rightarrow> Row list" where
  "drawData st lineCount charsPerLine0 =
     (let (d, m) = st;
          address = (word_of_int (strtol16 (startAddress d)) :: 64 word);
          adressSize = addressSize d;
          charsPerLine = (if 1024 < charsPerLine0 then 1024 else charsPerLine0);
          step = (ucast (word_of_int charsPerLine :: 32 word) :: 64 word);
          cells = (\<lambda>i. map (\<lambda>p. (m (data d + i * nat charsPerLine + p),
                                     m (oldData d + i * nat charsPerLine + p)))
                              [0..<nat charsPerLine])
      in map (\<lambda>i. \<lparr> row_address = getAddressLine (address + of_nat i * step) adressSize @ '': '',
                     row_hex = map (\<lambda>(c, co). (hex_fixed 2 (unat c), c \<noteq> co)) (cells i),
                     row_chars = map (\<lambda>(c, co). (printable c, c \<noteq> co)) (cells i) \<rparr>)
             [0..<nat lineCount])"

text \<open>The quotient of two C integers: rounded towards zero.\<close>

definition c_div :: "int \<Rightarrow> int \<Rightarrow> int" where
  "c_div a b = (if (a < 0) = (b < 0) then \<bar>a\<bar> div \<bar>b\<bar> else - (\<bar>a\<bar> div \<bar>b\<bar>))"

text \<open>The cast of a \<open>long\<close> to \<open>int\<close>: the value modulo \<open>2^32\<close>, as a signed number.\<close>

definition to_int32 :: "int \<Rightarrow> int" where
  "to_int32 x = (x + 2 ^ 31) mod 2 ^ 32 - 2 ^ 31"

text \<open>
  \<open>(int)(windowSize.x / (fontWidth + 23))\<close> with \<open>fontWidth = 13\<close>: how many cells of 36
  pixels the window is wide.
\<close>

definition drawableChars :: "PDUI \<Rightarrow> int" where
  "drawableChars uiFuncs = int (windowSize_x uiFuncs div 36)"

text \<open>\<open>(int)(size / (int)drawableChars)\<close>, for a divisor other than 0.\<close>

definition drawableLineCount :: "int \<Rightarrow> int \<Rightarrow> int" where
  "drawableLineCount sz chars = to_int32 (c_div sz chars)"

datatype fault = DivisionByZero

text \<open>
  \<open>drawUI\<close>: the two text widgets, the two conversions, the early return for an instance
  without buffer, the two comparisons that set \<open>requestData\<close>, and the drawing. The
  division of the size by the number of cells has no guard: it is a division by zero in a
  window narrower than 36 pixels, and the cycle ends there. The result is the instance and
  the lines drawn.
\<close>

definition drawUI :: "HexMemoryData \<times> memory \<Rightarrow> PDUI \<Rightarrow> fault + HexMemoryData \<times> Row list" where
  "drawUI st uiFuncs =
     (let (d0, m) = st;
          d = d0\<lparr>startAddress := input_text (edit_startAddress uiFuncs) 64 (startAddress d0),
                 sizeText := input_text (edit_sizeText uiFuncs) 64 (sizeText d0)\<rparr>;
          startAddr = strtol16 (startAddress d);
          sz = strtol16 (sizeText d)
      in if data d = 0 then Inr (d, [])
         else
           (let d1 = (if sa d \<noteq> word_of_int startAddr
                      then d\<lparr>requestData := True, sa := word_of_int startAddr\<rparr> else d);
                d2 = (if size' d1 \<noteq> word_of_int sz
                      then d1\<lparr>requestData := True, size' := word_of_int sz\<rparr> else d1)
            in if drawableChars uiFuncs = 0 then Inl DivisionByZero
               else Inr (d2, drawData (d2, m) (drawableLineCount sz (drawableChars uiFuncs))
                                      (drawableChars uiFuncs))))"

subsection \<open>One update cycle\<close>

text \<open>The event that \<open>update\<close> writes when \<open>requestData\<close> is set.\<close>

definition GetMemory :: "64 word \<Rightarrow> 64 word \<Rightarrow> PDEvent" where
  "GetMemory address_start sz =
     Event PDEventType_GetMemory [(''address_start'', address_start), (''size'', sz)] []"

text \<open>
  \<open>update\<close>: clear \<open>requestData\<close>, drain the inbound events, run \<open>drawUI\<close>, and write one
  \<open>GetMemory\<close> event if \<open>requestData\<close> is set. A cycle that gets that far returns 0; its
  result is the instance with the memory, the lines drawn and the events written. A cycle
  that ends in \<open>drawUI\<close> writes nothing.
\<close>

definition update :: "HexMemoryData \<times> memory \<Rightarrow> PDUI \<Rightarrow> PDEvent list
    \<Rightarrow> fault + (HexMemoryData \<times> memory) \<times> Row list \<times> PDEvent list" where
  "update st uiFuncs inEvents =
     (let (d1, m1) = process_events ((fst st)\<lparr>requestData := False\<rparr>, snd st) inEvents
      in case drawUI (d1, m1) uiFuncs of
           Inl f \<Rightarrow> Inl f
         | Inr (d2, rows) \<Rightarrow>
             Inr ((d2, m1), rows,
                  (if requestData d2 then [GetMemory (sa d2) (size' d2)] else [])))"

text \<open>
  What a cycle leaves: the events it has written, none when it ended with a fault, and
  the instance with its memory when it returned.
\<close>

definition events_written ::
    "fault + (HexMemoryData \<times> memory) \<times> Row list \<times> PDEvent list \<Rightarrow> PDEvent list" where
  "events_written r = (case r of Inl f \<Rightarrow> [] | Inr (st, rows, out) \<Rightarrow> out)"

definition instance_after ::
    "fault + (HexMemoryData \<times> memory) \<times> Row list \<times> PDEvent list \<Rightarrow> HexMemoryData \<times> memory" where
  "instance_after r = fst (projr r)"

text \<open>
  The instance as \<open>drawUI\<close> leaves it when it returns: the texts of the two widgets, and
  with a buffer the parsed pair in \<open>(sa, size)\<close> and \<open>requestData\<close> set by a difference.
\<close>

definition compared :: "HexMemoryData \<Rightarrow> PDUI \<Rightarrow> HexMemoryData" where
  "compared d0 uiFuncs =
     (let d = d0\<lparr>startAddress := input_text (edit_startAddress uiFuncs) 64 (startAddress d0),
                 sizeText := input_text (edit_sizeText uiFuncs) 64 (sizeText d0)\<rparr>;
          a = (word_of_int (strtol16 (startAddress d)) :: 64 word);
          z = (word_of_int (strtol16 (sizeText d)) :: 64 word)
      in if data d = 0 then d
         else d\<lparr>requestData := (requestData d \<or> sa d \<noteq> a \<or> size' d \<noteq> z), sa := a, size' := z\<rparr>)"

text \<open>
  A cycle ends with a fault when the instance has its buffer and the window is
  narrower than 36 pixels.
\<close>

definition cycle_faults :: "HexMemoryData \<times> memory \<Rightarrow> PDUI \<Rightarrow> bool" where
  "cycle_faults st uiFuncs = (data (fst st) \<noteq> 0 \<and> windowSize_x uiFuncs < 36)"

text \<open>The memory as the inbound batch leaves it.\<close>

definition memory_after_events :: "HexMemoryData \<times> memory \<Rightarrow> PDEvent list \<Rightarrow> memory" where
  "memory_after_events st inEvents = snd (process_events ((fst st)\<lparr>requestData := False\<rparr>, snd st) inEvents)"

text \<open>The values that \<open>drawUI\<close> parses from the two text fields in a cycle.\<close>

definition parsed_address :: "HexMemoryData \<Rightarrow> PDUI \<Rightarrow> 64 word" where
  "parsed_address d uiFuncs =
     word_of_int (strtol16 (input_text (edit_startAddress uiFuncs) 64 (startAddress d)))"

definition parsed_size :: "HexMemoryData \<Rightarrow> PDUI \<Rightarrow> 64 word" where
  "parsed_size d uiFuncs =
     word_of_int (strtol16 (input_text (edit_sizeText uiFuncs) 64 (sizeText d)))"

text \<open>The instance as the inbound batch leaves it, before \<open>drawUI\<close> runs.\<close>

definition after_events :: "HexMemoryData \<times> memory \<Rightarrow> PDEvent list \<Rightarrow> HexMemoryData" where
  "after_events st inEvents = fst (process_events ((fst st)\<lparr>requestData := False\<rparr>, snd st) inEvents)"

text \<open>
  A user interface in which neither field is edited, and one with the given edits, both
  in a window of 800 pixels.
\<close>

definition no_edit :: PDUI where
  "no_edit = \<lparr>edit_startAddress = None, edit_sizeText = None, windowSize_x = 800\<rparr>"

definition edits :: "string option \<Rightarrow> string option \<Rightarrow> PDUI" where
  "edits address_edit size_edit =
     \<lparr>edit_startAddress = address_edit, edit_sizeText = size_edit, windowSize_x = 800\<rparr>"

text \<open>A memory of zero bytes, for concrete runs.\<close>

definition zero_memory :: memory where
  "zero_memory = (\<lambda>a. 0)"

text \<open>A created instance for concrete runs: buffers at two separate addresses.\<close>

definition instance0 :: "HexMemoryData \<times> memory" where
  "instance0 = the (createInstance 4096 1048576 zero_memory)"

text \<open>The same instance after its first cycle, with no edit and no inbound event.\<close>

definition instance1 :: "HexMemoryData \<times> memory" where
  "instance1 = instance_after (update instance0 no_edit [])"

text \<open>The address an inbound event carries: 0 when it has no \<open>address\<close> field.\<close>

definition event_address :: "PDEvent \<Rightarrow> 64 word" where
  "event_address ev = (case PDRead_find_u64 ev ''address'' of None \<Rightarrow> 0 | Some a \<Rightarrow> a)"

text \<open>
  No event of the batch brings a new exception location: every
  \<open>SetExceptionLocation\<close> event carries the location the instance already stores.
\<close>

definition no_new_exception_location :: "HexMemoryData \<Rightarrow> PDEvent list \<Rightarrow> bool" where
  "no_new_exception_location d evs =
     list_all (\<lambda>ev. event_type ev \<noteq> PDEventType_SetExceptionLocation
                     \<or> event_address ev = exceptionLocation d) evs"

text \<open>No event of the batch is a \<open>SetMemory\<close> event with a payload.\<close>

definition no_memory_payload :: "PDEvent list \<Rightarrow> bool" where
  "no_memory_payload evs =
     list_all (\<lambda>ev. event_type ev \<noteq> PDEventType_SetMemory
                     \<or> PDRead_find_data ev ''data'' = None) evs"

text \<open>
  The accesses of a cycle stay inside the two buffers: every payload of a \<open>SetMemory\<close>
  event of the batch is at most 128 KiB long, and the lines that \<open>drawData\<close> is asked to
  draw end within the first 128 KiB.
\<close>

definition payloads_fit :: "PDEvent list \<Rightarrow> bool" where
  "payloads_fit evs =
     list_all (\<lambda>ev. event_type ev \<noteq> PDEventType_SetMemory
                     \<or> (case PDRead_find_data ev ''data'' of
                           None \<Rightarrow> True
                         | Some payload \<Rightarrow> length payload \<le> capacity)) evs"

definition rows_fit :: "HexMemoryData \<Rightarrow> PDUI \<Rightarrow> bool" where
  "rows_fit d uiFuncs =
     (let chars = drawableChars uiFuncs;
          sz = strtol16 (input_text (edit_sizeText uiFuncs) 64 (sizeText d));
          lineCount = drawableLineCount sz chars
      in lineCount \<le> 0
         \<or> nat lineCount * nat (if 1024 < chars then 1024 else chars) \<le> capacity)"

text \<open>The two text fields as the \<open>input_text\<close> widgets of a cycle leave them.\<close>

definition address_text :: "HexMemoryData \<Rightarrow> PDUI \<Rightarrow> string" where
  "address_text d uiFuncs = input_text (edit_startAddress uiFuncs) 64 (startAddress d)"

definition size_text :: "HexMemoryData \<Rightarrow> PDUI \<Rightarrow> string" where
  "size_text d uiFuncs = input_text (edit_sizeText uiFuncs) 64 (sizeText d)"

text \<open>
  A text in which \<open>strtol\<close> finds nothing to convert: after the white space and the sign,
  the text ends or goes on with a char that is no hexadecimal digit. The empty text and a
  text such as \<open>zz\<close> are of this kind; \<open>-1\<close>, \<open>+ff\<close> and a blank before \<open>10\<close> are not.
\<close>

definition no_conversion :: "string \<Rightarrow> bool" where
  "no_conversion s =
     (case snd (strtol_sign (dropWhile isspace s)) of [] \<Rightarrow> True | c # _ \<Rightarrow> hexval c = None)"

text \<open>
  A char that ends the number of a text: the text \<open>s\<close> has something to convert, and \<open>c\<close>
  is no hexadecimal digit and not the \<open>x\<close> that makes a prefix of a lone \<open>0\<close>. In \<open>12g4\<close>
  the char \<open>g\<close> ends the number of \<open>12\<close>.
\<close>

definition ends_number :: "string \<Rightarrow> char \<Rightarrow> bool" where
  "ends_number s c =
     (\<not> no_conversion s \<and> hexval c = None
      \<and> \<not> (snd (strtol_sign (dropWhile isspace s)) = ''0'' \<and> (c = CHR ''x'' \<or> c = CHR ''X'')))"

text \<open>The instance after a further cycle in which the user typed the address \<open>2000\<close>.\<close>

definition instance2 :: "HexMemoryData \<times> memory" where
  "instance2 = instance_after (update instance1 (edits (Some ''2000'') None) [])"

text \<open>The two buffers of an instance: the 128 KiB at \<open>data\<close> and at \<open>oldData\<close>.\<close>

definition current_buffer :: "HexMemoryData \<times> memory \<Rightarrow> 8 word list" where
  "current_buffer st = read_bytes (data (fst st)) capacity (snd st)"

definition previous_buffer :: "HexMemoryData \<times> memory \<Rightarrow> 8 word list" where
  "previous_buffer st = read_bytes (oldData (fst st)) capacity (snd st)"

text \<open>The two allocations do not overlap, as \<open>malloc\<close> guarantees.\<close>

definition buffers_apart :: "HexMemoryData \<Rightarrow> bool" where
  "buffers_apart d = (data d + capacity \<le> oldData d \<or> oldData d + capacity \<le> data d)"

text \<open>A \<open>SetMemory\<close> event with the given address and payload.\<close>

definition SetMemory :: "64 word \<Rightarrow> 8 word list \<Rightarrow> PDEvent" where
  "SetMemory address payload = Event PDEventType_SetMemory [(''address'', address)] [(''data'', payload)]"

text \<open>A payload of 128 KiB and one byte, every byte \<open>0x01\<close>.\<close>

definition overlong_payload :: "8 word list" where
  "overlong_payload = replicate (capacity + 1) 1"

text \<open>The created instance after a payload of four zero bytes.\<close>

definition instance0_filled :: "HexMemoryData \<times> memory" where
  "instance0_filled = updateMemory instance0 (SetMemory 0 [0, 0, 0, 0])"

subsection \<open>Session state\<close>

text \<open>
  Modelled from the spec: \<open>PDIO_write_string\<close> and \<open>PDIO_read_string\<close> (pd\_io.h) are not
  among the sources. The spec has a text field saved as a length-prefixed field and a
  read fail on truncated or missing data. The session blob is a list of bytes (\<open>char\<close>s);
  the length is written in \<open>w\<close> bytes, least significant first, where the width \<open>w\<close>, which
  the spec leaves open, is a parameter. A read fails when fewer than \<open>w\<close> bytes are left
  or fewer chars than the length announces. What a failed read leaves in its destination
  and of the blob is not said anywhere: it is the parameter \<open>failed\<close>, a function of the
  destination's text and the blob. A read that succeeds stores at most \<open>max_len - 1\<close>
  chars. The result of a read is its status, the text in the destination and the bytes
  left.
\<close>

type_synonym failed_read = "string \<Rightarrow> string \<Rightarrow> string \<times> string"

fun encode_length :: "nat \<Rightarrow> nat \<Rightarrow> string" where
  "encode_length 0 n = []"
| "encode_length (Suc w) n = char_of (n mod 256) # encode_length w (n div 256)"

fun decode_length :: "string \<Rightarrow> nat" where
  "decode_length [] = 0"
| "decode_length (c # cs) = of_char c + 256 * decode_length cs"

definition PDIO_write_string :: "nat \<Rightarrow> string \<Rightarrow> string" where
  "PDIO_write_string w str = encode_length w (length str) @ str"

definition PDIO_read_string ::
    "nat \<Rightarrow> failed_read \<Rightarrow> string \<Rightarrow> string \<Rightarrow> nat \<Rightarrow> bool \<times> string \<times> string" where
  "PDIO_read_string w failed blob dest max_len =
     (if length blob < w then (False, failed dest blob)
      else
        (let n = decode_length (take w blob);
             rest = drop w blob
         in if length rest < n then (False, failed dest blob)
            else (True, take (max_len - 1) (take n rest), drop n rest)))"

text \<open>
  \<open>saveState\<close> writes the two text fields, address first, and returns 1. The result is the
  return value and the bytes written.
\<close>

definition saveState :: "nat \<Rightarrow> HexMemoryData \<Rightarrow> int \<times> string" where
  "saveState w d = (1, PDIO_write_string w (startAddress d) @ PDIO_write_string w (sizeText d))"

text \<open>
  \<open>loadState\<close> reads into the two text fields, address first. It does not look at the
  status of either read and returns 1.
\<close>

definition loadState :: "nat \<Rightarrow> failed_read \<Rightarrow> HexMemoryData \<Rightarrow> string \<Rightarrow> int \<times> HexMemoryData" where
  "loadState w failed d blob =
     (let (ok1, text1, blob1) = PDIO_read_string w failed blob (startAddress d) 64;
          d1 = d\<lparr>startAddress := text1\<rparr>;
          (ok2, text2, blob2) = PDIO_read_string w failed blob1 (sizeText d1) 64;
          d2 = d1\<lparr>sizeText := text2\<rparr>
      in (1, d2))"

text \<open>
  Two ways a failed read may behave, for concrete runs: it leaves the destination and the
  blob alone, or it empties both.
\<close>

definition failed_keeps :: failed_read where
  "failed_keeps dest blob = (dest, blob)"

definition failed_clears :: failed_read where
  "failed_clears dest blob = ([], [])"

text \<open>
  The instance after a cycle in which the user typed the size \<open>40000\<close>, and a payload of
  the \<open>0x40000\<close> bytes which that cycle requests, every byte \<open>0x01\<close>.
\<close>

definition instance3 :: "HexMemoryData \<times> memory" where
  "instance3 = instance_after (update instance1 (edits None (Some ''40000'')) [])"

definition requested_payload :: "8 word list" where
  "requested_payload = replicate 262144 1"

section \<open>Properties\<close>

subsection \<open>Parsing\<close>

lemmas strtol16_defs =
  strtol16_def strtol_sign_def strtol_prefix_def isspace_def hexval_def LONG_MAX_def LONG_MIN_def

lemma strtol16_default_address: "strtol16 ''0x00000000'' = 0"
  by (simp add: strtol16_defs)

lemma strtol16_default_size: "strtol16 ''1024'' = 4132"
  by (simp add: strtol16_defs)

lemma strtol16_empty: "strtol16 [] = 0"
  by (simp add: strtol16_defs)

subsection \<open>What the inbound events leave alone\<close>

lemma updateMemory_fields:
  "data (fst (updateMemory st ev)) = data (fst st)
   \<and> oldData (fst (updateMemory st ev)) = oldData (fst st)
   \<and> startAddress (fst (updateMemory st ev)) = startAddress (fst st)
   \<and> sizeText (fst (updateMemory st ev)) = sizeText (fst st)
   \<and> size' (fst (updateMemory st ev)) = size' (fst st)
   \<and> requestData (fst (updateMemory st ev)) = requestData (fst st)
   \<and> exceptionLocation (fst (updateMemory st ev)) = exceptionLocation (fst st)"
  by (cases st) (simp add: updateMemory_def Let_def split: option.splits)

lemma updateExceptionLocation_fields:
  "data (updateExceptionLocation d ev) = data d
   \<and> oldData (updateExceptionLocation d ev) = oldData d
   \<and> startAddress (updateExceptionLocation d ev) = startAddress d
   \<and> sizeText (updateExceptionLocation d ev) = sizeText d
   \<and> size' (updateExceptionLocation d ev) = size' d
   \<and> sa (updateExceptionLocation d ev) = sa d"
  by (simp add: updateExceptionLocation_def Let_def)

lemma dispatch_fields:
  "data (fst (dispatch st ev)) = data (fst st)
   \<and> oldData (fst (dispatch st ev)) = oldData (fst st)
   \<and> startAddress (fst (dispatch st ev)) = startAddress (fst st)
   \<and> sizeText (fst (dispatch st ev)) = sizeText (fst st)
   \<and> size' (fst (dispatch st ev)) = size' (fst st)"
  by (simp add: dispatch_def updateMemory_fields updateExceptionLocation_fields
      split: PDEventType.splits)

lemma process_events_fields:
  "data (fst (process_events st evs)) = data (fst st)
   \<and> oldData (fst (process_events st evs)) = oldData (fst st)
   \<and> startAddress (fst (process_events st evs)) = startAddress (fst st)
   \<and> sizeText (fst (process_events st evs)) = sizeText (fst st)
   \<and> size' (fst (process_events st evs)) = size' (fst st)"
  by (induction evs arbitrary: st) (simp_all add: dispatch_fields)

lemma after_events_fields:
  "data (after_events st evs) = data (fst st)
   \<and> oldData (after_events st evs) = oldData (fst st)
   \<and> startAddress (after_events st evs) = startAddress (fst st)
   \<and> sizeText (after_events st evs) = sizeText (fst st)
   \<and> size' (after_events st evs) = size' (fst st)"
  by (simp add: after_events_def process_events_fields)

lemma parsed_after_events:
  "parsed_address (after_events st evs) ui = parsed_address (fst st) ui"
  "parsed_size (after_events st evs) ui = parsed_size (fst st) ui"
  by (simp_all add: parsed_address_def parsed_size_def after_events_fields)

subsection \<open>What \<open>drawUI\<close> and \<open>update\<close> compute\<close>

lemma compared_result:
  assumes "data d \<noteq> 0"
  shows "sa (compared d ui) = parsed_address d ui"
    and "size' (compared d ui) = parsed_size d ui"
    and "requestData (compared d ui) =
           (requestData d \<or> sa d \<noteq> parsed_address d ui \<or> size' d \<noteq> parsed_size d ui)"
  using assms by (auto simp add: compared_def Let_def parsed_address_def parsed_size_def)

lemma compared_keeps:
  "exceptionLocation (compared d ui) = exceptionLocation d"
  "data (compared d ui) = data d"
  "oldData (compared d ui) = oldData d"
  "requestData d \<Longrightarrow> requestData (compared d ui)"
  by (simp_all add: compared_def Let_def)

text \<open>\<open>drawUI\<close> ends with a fault or returns the compared instance.\<close>

lemma drawUI_cases:
  "drawUI (d, m) ui =
     (if data d = 0 then Inr (compared d ui, [])
      else if drawableChars ui = 0 then Inl DivisionByZero
      else Inr (compared d ui,
                drawData (compared d ui, m)
                  (drawableLineCount (strtol16 (input_text (edit_sizeText ui) 64 (sizeText d)))
                     (drawableChars ui))
                  (drawableChars ui)))"
  by (cases d) (auto simp add: drawUI_def compared_def Let_def)

lemma drawableChars_zero: "(drawableChars ui = 0) = (windowSize_x ui < 36)"
  by (simp add: drawableChars_def div_eq_0_iff)

lemma update_faults:
  assumes "cycle_faults st ui"
  shows "update st ui evs = Inl DivisionByZero"
proof -
  obtain d1 m1 where ev: "process_events ((fst st)\<lparr>requestData := False\<rparr>, snd st) evs = (d1, m1)"
    by (cases "process_events ((fst st)\<lparr>requestData := False\<rparr>, snd st) evs")
  have "data d1 = data (fst st)"
    using process_events_fields [of "((fst st)\<lparr>requestData := False\<rparr>, snd st)" evs] ev by simp
  then show ?thesis
    using assms
    by (simp add: update_def ev drawUI_cases cycle_faults_def drawableChars_zero)
qed

lemma update_returns:
  assumes "\<not> cycle_faults st ui"
  shows "\<exists>rows. update st ui evs =
     Inr ((compared (after_events st evs) ui, memory_after_events st evs), rows,
          (if requestData (compared (after_events st evs) ui)
           then [GetMemory (sa (compared (after_events st evs) ui))
                           (size' (compared (after_events st evs) ui))]
           else []))"
proof -
  obtain d1 m1 where ev: "process_events ((fst st)\<lparr>requestData := False\<rparr>, snd st) evs = (d1, m1)"
    by (cases "process_events ((fst st)\<lparr>requestData := False\<rparr>, snd st) evs")
  have "data d1 = data (fst st)"
    using process_events_fields [of "((fst st)\<lparr>requestData := False\<rparr>, snd st)" evs] ev by simp
  then show ?thesis
    using assms
    by (auto simp add: update_def ev drawUI_cases cycle_faults_def drawableChars_zero
        after_events_def memory_after_events_def)
qed

lemma events_written_update:
  "events_written (update st ui evs) =
     (if cycle_faults st ui then []
      else if requestData (compared (after_events st evs) ui)
      then [GetMemory (sa (compared (after_events st evs) ui))
                      (size' (compared (after_events st evs) ui))]
      else [])"
proof (cases "cycle_faults st ui")
  case True
  then show ?thesis
    by (simp add: update_faults events_written_def)
next
  case False
  then show ?thesis
    using update_returns [OF False, of evs] by (auto simp add: events_written_def)
qed

lemma instance_after_update:
  assumes "\<not> cycle_faults st ui"
  shows "instance_after (update st ui evs)
           = (compared (after_events st evs) ui, memory_after_events st evs)"
  using update_returns [OF assms, of evs] by (auto simp add: instance_after_def)

text \<open>With the buffer allocated and the window wide enough, one cycle writes the parsed
  pair or nothing.\<close>

lemma events_written_allocated:
  assumes "data (fst st) \<noteq> 0" and "36 \<le> windowSize_x ui"
  shows "events_written (update st ui evs) =
     (if requestData (after_events st evs)
         \<or> sa (after_events st evs) \<noteq> parsed_address (fst st) ui
         \<or> size' (fst st) \<noteq> parsed_size (fst st) ui
      then [GetMemory (parsed_address (fst st) ui) (parsed_size (fst st) ui)]
      else [])"
proof -
  have alloc: "data (after_events st evs) \<noteq> 0"
    using assms(1) by (simp add: after_events_fields)
  have runs: "\<not> cycle_faults st ui"
    using assms(2) by (simp add: cycle_faults_def)
  show ?thesis
    unfolding events_written_update
    by (simp add: runs compared_result [OF alloc] parsed_after_events after_events_fields)
qed

lemma no_edit_window: "windowSize_x no_edit = 800" "windowSize_x (edits a z) = 800"
  by (simp_all add: no_edit_def edits_def)

lemma no_edit_runs: "\<not> cycle_faults st no_edit" "\<not> cycle_faults st (edits a z)"
  by (simp_all add: cycle_faults_def no_edit_window)

text \<open>In a window of 35 pixels the cycle of an instance with its buffer ends in the division.\<close>

lemma narrow_window_faults:
  assumes "data (fst st) \<noteq> 0"
  shows "update st \<lparr>edit_startAddress = a, edit_sizeText = z, windowSize_x = 35\<rparr> evs
           = Inl DivisionByZero"
    and "events_written (update st \<lparr>edit_startAddress = a, edit_sizeText = z, windowSize_x = 35\<rparr> evs)
           = []"
  using assms by (simp_all add: update_faults cycle_faults_def events_written_def)

subsection \<open>The first cycle of a created instance\<close>

lemma createInstance_Some:
  assumes "createInstance p q m = Some st"
  shows "data (fst st) = p" and "p \<noteq> 0" and "oldData (fst st) = q" and "q \<noteq> 0"
    and "startAddress (fst st) = ''0x00000000''" and "sizeText (fst st) = ''1024''"
    and "sa (fst st) = 0" and "size' (fst st) = 1024" and "exceptionLocation (fst st) = 0"
    and "snd st = memset q 0xff capacity (memset p 0xff capacity m)"
  using assms by (auto simp add: createInstance_def split: if_splits)

lemma instance0_eq:
  "createInstance 4096 1048576 zero_memory = Some instance0"
  by (simp add: instance0_def createInstance_def)

lemma parsed_no_edit:
  "parsed_address d no_edit = word_of_int (strtol16 (startAddress d))"
  "parsed_size d no_edit = word_of_int (strtol16 (sizeText d))"
  by (simp_all add: parsed_address_def parsed_size_def no_edit_def input_text_def)

lemma parsed_edits:
  "parsed_address d (edits None z) = word_of_int (strtol16 (startAddress d))"
  "parsed_address d (edits (Some t) z) = word_of_int (strtol16 (take 63 t))"
  "parsed_size d (edits a None) = word_of_int (strtol16 (sizeText d))"
  "parsed_size d (edits a (Some t)) = word_of_int (strtol16 (take 63 t))"
  by (simp_all add: parsed_address_def parsed_size_def edits_def input_text_def)

text \<open>
  C5 on the code: \<open>createInstance\<close> stores the size 1024 beside the size text \<open>1024\<close>, and
  \<open>drawUI\<close> reads that text at base 16. In the first cycle of the created instance, with
  no edit and no inbound event, the parsed size \<open>0x1024 = 4132\<close> differs from the stored
  1024, and the one event written carries \<open>address_start = 0\<close> and \<open>size = 4132\<close>.
\<close>

theorem first_cycle_size_is_hexadecimal:
  "size' (fst instance0) = 1024
   \<and> sizeText (fst instance0) = ''1024''
   \<and> strtol16 ''1024'' = 4132
   \<and> events_written (update instance0 no_edit [])
       = [Event PDEventType_GetMemory [(''address_start'', 0), (''size'', 4132)] []]"
proof -
  have alloc: "data (fst instance0) \<noteq> 0"
    using createInstance_Some [OF instance0_eq] by simp
  have wide: "36 \<le> windowSize_x no_edit"
    by (simp add: no_edit_window)
  have "events_written (update instance0 no_edit []) = [GetMemory 0 4132]"
    unfolding events_written_allocated [OF alloc wide]
    by (simp add: parsed_no_edit createInstance_Some [OF instance0_eq]
        strtol16_default_address strtol16_default_size)
  then show ?thesis
    by (simp add: GetMemory_def createInstance_Some [OF instance0_eq] strtol16_default_size)
qed

subsection \<open>The inbound batch and the request flag\<close>

lemma process_events_append:
  "process_events st (xs @ ys) = process_events (process_events st xs) ys"
  by (induction xs arbitrary: st) simp_all







lemma process_events_no_new_exception:
  assumes "no_new_exception_location (fst st) evs" and "\<not> requestData (fst st)"
  shows "\<not> requestData (fst (process_events st evs))
         \<and> exceptionLocation (fst (process_events st evs)) = exceptionLocation (fst st)"
  using assms
proof (induction evs arbitrary: st)
  case Nil
  then show ?case by simp
next
  case (Cons ev evs)
  have step: "\<not> requestData (fst (dispatch st ev))
      \<and> exceptionLocation (fst (dispatch st ev)) = exceptionLocation (fst st)"
    using Cons.prems
    by (auto simp add: no_new_exception_location_def dispatch_def updateMemory_fields
        updateExceptionLocation_def event_address_def Let_def split: PDEventType.splits)
  then have "no_new_exception_location (fst (dispatch st ev)) evs"
    using Cons.prems(1) by (simp add: no_new_exception_location_def)
  then show ?case
    using Cons.IH [of "dispatch st ev"] step by simp
qed

lemma process_events_no_memory_payload:
  assumes "no_memory_payload evs"
  shows "sa (fst (process_events st evs)) = sa (fst st)
         \<and> snd (process_events st evs) = snd st"
  using assms
proof (induction evs arbitrary: st)
  case Nil
  show ?case by simp
next
  case (Cons ev evs)
  have "sa (fst (dispatch st ev)) = sa (fst st) \<and> snd (dispatch st ev) = snd st"
    using Cons.prems
    by (cases st)
      (auto simp add: no_memory_payload_def dispatch_def updateMemory_def
        updateExceptionLocation_def Let_def split: PDEventType.splits)
  then show ?case
    using Cons by (simp add: no_memory_payload_def)
qed

lemma after_events_Nil: "after_events st [] = (fst st)\<lparr>requestData := False\<rparr>"
  by (simp add: after_events_def)

lemma memory_after_events_Nil: "memory_after_events st [] = snd st"
  by (simp add: memory_after_events_def)

lemma instance1_eq:
  "instance1 = (compared (after_events instance0 []) no_edit, snd instance0)"
  by (simp add: instance1_def instance_after_update no_edit_runs memory_after_events_Nil)

lemma instance1_fields:
  "data (fst instance1) = 4096"
  "startAddress (fst instance1) = ''0x00000000''"
  "sizeText (fst instance1) = ''1024''"
  "sa (fst instance1) = 0"
  "size' (fst instance1) = 4132"
  "exceptionLocation (fst instance1) = 0"
proof -
  have alloc: "data (after_events instance0 []) \<noteq> 0"
    using createInstance_Some [OF instance0_eq] by (simp add: after_events_fields)
  have eq: "fst instance1 = compared (after_events instance0 []) no_edit"
    by (simp add: instance1_eq)
  show "sa (fst instance1) = 0" "size' (fst instance1) = 4132"
    unfolding eq compared_result [OF alloc]
    by (simp_all add: parsed_no_edit after_events_fields createInstance_Some [OF instance0_eq]
        strtol16_default_address strtol16_default_size)
  show "exceptionLocation (fst instance1) = 0"
    unfolding eq compared_keeps
    by (simp add: after_events_Nil createInstance_Some [OF instance0_eq])
  show "data (fst instance1) = 4096" "startAddress (fst instance1) = ''0x00000000''"
    "sizeText (fst instance1) = ''1024''"
    unfolding eq
    by (simp_all add: compared_def Let_def no_edit_def input_text_def after_events_Nil
        createInstance_Some [OF instance0_eq])
qed


lemma instance2_eq:
  "instance2 = (compared (after_events instance1 []) (edits (Some ''2000'') None), snd instance0)"
  by (simp add: instance2_def instance_after_update no_edit_runs memory_after_events_Nil
      instance1_eq)

lemma instance2_fields:
  "data (fst instance2) = 4096"
  "startAddress (fst instance2) = ''2000''"
  "sizeText (fst instance2) = ''1024''"
  "sa (fst instance2) = 8192"
  "size' (fst instance2) = 4132"
  "exceptionLocation (fst instance2) = 0"
proof -
  let ?ui = "edits (Some ''2000'') None"
  have alloc: "data (after_events instance1 []) \<noteq> 0"
    by (simp add: after_events_fields instance1_fields)
  have eq: "fst instance2 = compared (after_events instance1 []) ?ui"
    by (simp add: instance2_eq)
  show "sa (fst instance2) = 8192"
    unfolding eq compared_result [OF alloc]
    by (simp add: parsed_edits strtol16_defs)
  show "size' (fst instance2) = 4132"
    unfolding eq compared_result [OF alloc]
    by (simp add: parsed_edits after_events_fields instance1_fields strtol16_default_size)
  show "exceptionLocation (fst instance2) = 0"
    unfolding eq compared_keeps
    by (simp add: after_events_Nil instance1_fields)
  show "data (fst instance2) = 4096" "startAddress (fst instance2) = ''2000''"
    "sizeText (fst instance2) = ''1024''"
    unfolding eq
    by (simp_all add: compared_def Let_def edits_def input_text_def after_events_Nil
        instance1_fields)
qed

lemma instance2_parsed:
  "parsed_address (fst instance2) no_edit = 8192"
  "parsed_size (fst instance2) no_edit = 4132"
  by (simp_all add: parsed_no_edit instance2_fields strtol16_default_size, simp add: strtol16_defs)

lemma rows_fit_default_size:
  assumes "sizeText d = ''1024''"
  shows "rows_fit d no_edit" and "rows_fit d (edits a None)"
  using assms
  by (simp_all add: rows_fit_def Let_def no_edit_def edits_def input_text_def
      strtol16_default_size drawableChars_def drawableLineCount_def c_div_def to_int32_def
      capacity_def)

lemma SetMemory_fields:
  "PDRead_find_data (SetMemory a payload) ''data'' = Some payload"
  "event_address (SetMemory a payload) = a"
  "event_type (SetMemory a payload) = PDEventType_SetMemory"
  by (simp_all add: SetMemory_def PDRead_find_data_def PDRead_find_u64_def event_address_def)

lemma dispatch_SetMemory_sa:
  assumes "event_type ev = PDEventType_SetMemory" and "PDRead_find_data ev ''data'' = Some payload"
  shows "sa (fst (dispatch st ev)) = event_address ev"
  using assms
  by (cases st) (simp add: dispatch_def updateMemory_def Let_def event_address_def)

lemma after_events_last_payload:
  assumes "evs = pre @ ev # post"
    and "event_type ev = PDEventType_SetMemory"
    and "PDRead_find_data ev ''data'' = Some payload"
    and "no_memory_payload post"
  shows "sa (after_events st evs) = event_address ev"
proof -
  let ?s1 = "process_events ((fst st)\<lparr>requestData := False\<rparr>, snd st) pre"
  have "after_events st evs = fst (process_events (dispatch ?s1 ev) post)"
    by (simp add: after_events_def assms(1) process_events_append)
  then show ?thesis
    using process_events_no_memory_payload [OF assms(4), of "dispatch ?s1 ev"]
      dispatch_SetMemory_sa [OF assms(2,3), of ?s1]
    by simp
qed

lemma after_events_single_SetMemory:
  "sa (after_events st [SetMemory a payload]) = a"
  using after_events_last_payload [of "[SetMemory a payload]" "[]" "SetMemory a payload" "[]" payload st]
  by (simp add: SetMemory_fields no_memory_payload_def)

lemma after_events_SetMemory_quiet:
  "requestData (after_events st [SetMemory a payload]) = False"
  by (simp add: after_events_def dispatch_def SetMemory_fields updateMemory_fields)

subsection \<open>When a cycle requests memory\<close>

text \<open>
  C2, as stated, fails: a \<open>SetMemory\<close> event with a payload stores its address in \<open>sa\<close>
  before the text is compared. After the request of \<open>(0x2000, 0x1024)\<close>, a cycle with the
  same text, no exception event and an answer that carries the address 0 writes the
  request again; and after the request of \<open>(0, 0x1024)\<close>, a cycle in which the address
  \<open>10\<close> is typed and an answer carries the address 16 writes nothing.
\<close>

theorem last_requested_pair_counterexample:
  "events_written (update instance1 (edits (Some ''2000'') None) [])
     = [Event PDEventType_GetMemory [(''address_start'', 8192), (''size'', 4132)] []]
   \<and> parsed_address (fst instance2) no_edit = 8192
   \<and> parsed_size (fst instance2) no_edit = 4132
   \<and> events_written (update instance2 no_edit [SetMemory 0 [1]])
       = [Event PDEventType_GetMemory [(''address_start'', 8192), (''size'', 4132)] []]
   \<and> events_written (update instance0 no_edit [])
       = [Event PDEventType_GetMemory [(''address_start'', 0), (''size'', 4132)] []]
   \<and> parsed_address (fst instance1) (edits (Some ''10'') None) = 16
   \<and> events_written (update instance1 (edits (Some ''10'') None) [SetMemory 16 [1]]) = []"
proof -
  have alloc0: "data (fst instance0) \<noteq> 0"
    using createInstance_Some [OF instance0_eq] by simp
  have alloc1: "data (fst instance1) \<noteq> 0"
    by (simp add: instance1_fields)
  have alloc2: "data (fst instance2) \<noteq> 0"
    by (simp add: instance2_fields)
  have wide: "36 \<le> windowSize_x no_edit" "36 \<le> windowSize_x (edits (Some ''2000'') None)"
    "36 \<le> windowSize_x (edits (Some ''10'') None)"
    by (simp_all add: no_edit_window)
  have typed: "parsed_address (fst instance1) (edits (Some ''2000'') None) = 8192"
    "parsed_address (fst instance1) (edits (Some ''10'') None) = 16"
    by (simp_all add: parsed_edits strtol16_defs)
  have kept: "parsed_size (fst instance1) (edits (Some ''2000'') None) = 4132"
    "parsed_size (fst instance1) (edits (Some ''10'') None) = 4132"
    by (simp_all add: parsed_edits instance1_fields strtol16_default_size)
  have c0: "events_written (update instance0 no_edit []) = [GetMemory 0 4132]"
    unfolding events_written_allocated [OF alloc0 wide(1)]
    by (simp add: parsed_no_edit createInstance_Some [OF instance0_eq]
        strtol16_default_address strtol16_default_size)
  have c1: "events_written (update instance1 (edits (Some ''2000'') None) []) = [GetMemory 8192 4132]"
    unfolding events_written_allocated [OF alloc1 wide(2)]
    by (simp add: typed kept after_events_Nil instance1_fields)
  have c2: "events_written (update instance2 no_edit [SetMemory 0 [1]]) = [GetMemory 8192 4132]"
    unfolding events_written_allocated [OF alloc2 wide(1)]
    by (simp add: instance2_parsed after_events_single_SetMemory)
  have c3: "events_written (update instance1 (edits (Some ''10'') None) [SetMemory 16 [1]]) = []"
    unfolding events_written_allocated [OF alloc1 wide(3)]
    by (simp add: typed kept after_events_single_SetMemory after_events_SetMemory_quiet
        instance1_fields)
  show ?thesis
    using c0 c1 c2 c3 by (simp add: GetMemory_def instance2_parsed typed)
qed

text \<open>
  C2, amended: in every update cycle that runs to its end (the buffer allocated, the
  window at least 36 pixels wide, the accesses inside the buffers), the parsed address and
  size are compared with the pair \<open>(sa, size)\<close> as the inbound events of the cycle leave
  it. When they differ, exactly one \<open>GetMemory\<close> event is written, with \<open>address_start\<close>
  and \<open>size\<close> the parsed values; when they are equal and no event brought a new exception
  location, none is written. The events never change \<open>size\<close>; a \<open>SetMemory\<close> event with a
  payload stores its address in \<open>sa\<close>, so that the pair is the one the cycle began with
  when the batch holds no such event, and has the address of the last such event otherwise.
\<close>

theorem fetch_on_changed_range:
  assumes "data (fst st) \<noteq> 0" and "36 \<le> windowSize_x ui"
    and "payloads_fit evs" and "rows_fit (fst st) ui"
  shows "(parsed_address (fst st) ui \<noteq> sa (after_events st evs)
            \<or> parsed_size (fst st) ui \<noteq> size' (after_events st evs)
          \<longrightarrow> events_written (update st ui evs)
                = [Event PDEventType_GetMemory
                     [(''address_start'', parsed_address (fst st) ui),
                      (''size'', parsed_size (fst st) ui)] []])
       \<and> (parsed_address (fst st) ui = sa (after_events st evs)
            \<and> parsed_size (fst st) ui = size' (after_events st evs)
            \<and> no_new_exception_location (fst st) evs
          \<longrightarrow> events_written (update st ui evs) = [])
       \<and> size' (after_events st evs) = size' (fst st)
       \<and> (no_memory_payload evs \<longrightarrow> sa (after_events st evs) = sa (fst st))
       \<and> (evs = pre @ ev # post \<and> event_type ev = PDEventType_SetMemory
            \<and> PDRead_find_data ev ''data'' = Some payload \<and> no_memory_payload post
          \<longrightarrow> sa (after_events st evs) = event_address ev)"
proof -
  have quiet: "\<not> requestData (after_events st evs)"
    if "no_new_exception_location (fst st) evs"
    using process_events_no_new_exception [of "((fst st)\<lparr>requestData := False\<rparr>, snd st)" evs] that
    by (simp add: after_events_def no_new_exception_location_def)
  have same_sa: "sa (after_events st evs) = sa (fst st)" if "no_memory_payload evs"
    using process_events_no_memory_payload [OF that, of "((fst st)\<lparr>requestData := False\<rparr>, snd st)"]
    by (simp add: after_events_def)
  have last_sa: "sa (after_events st evs) = event_address ev"
    if "evs = pre @ ev # post" "event_type ev = PDEventType_SetMemory"
      "PDRead_find_data ev ''data'' = Some payload" "no_memory_payload post"
    using that by (rule after_events_last_payload)
  show ?thesis
    unfolding events_written_allocated [OF assms(1,2)] GetMemory_def
    using quiet same_sa last_sa by (auto simp add: after_events_fields)
qed

theorem fetch_on_changed_range_witness:
  "data (fst instance2) \<noteq> 0
   \<and> 36 \<le> windowSize_x no_edit
   \<and> payloads_fit [SetMemory 0 [1]]
   \<and> payloads_fit [SetMemory 8192 [1]]
   \<and> rows_fit (fst instance2) no_edit
   \<and> parsed_address (fst instance2) no_edit \<noteq> sa (after_events instance2 [SetMemory 0 [1]])
   \<and> events_written (update instance2 no_edit [SetMemory 0 [1]])
       = [Event PDEventType_GetMemory [(''address_start'', 8192), (''size'', 4132)] []]
   \<and> parsed_address (fst instance2) no_edit = sa (after_events instance2 [SetMemory 8192 [1]])
   \<and> parsed_size (fst instance2) no_edit = size' (after_events instance2 [SetMemory 8192 [1]])
   \<and> no_new_exception_location (fst instance2) [SetMemory 8192 [1]]
   \<and> events_written (update instance2 no_edit [SetMemory 8192 [1]]) = []
   \<and> no_memory_payload []
   \<and> sa (after_events instance2 []) = sa (fst instance2)
   \<and> sa (after_events instance2 [SetMemory 0 [1]]) = event_address (SetMemory 0 [1])"
proof -
  have alloc: "data (fst instance2) \<noteq> 0"
    by (simp add: instance2_fields)
  have wide: "36 \<le> windowSize_x no_edit"
    by (simp add: no_edit_window)
  have fit: "payloads_fit [SetMemory 0 [1]]" "payloads_fit [SetMemory 8192 [1]]" "payloads_fit []"
    by (simp_all add: payloads_fit_def SetMemory_fields capacity_def)
  have rows: "rows_fit (fst instance2) no_edit"
    by (rule rows_fit_default_size) (simp add: instance2_fields)
  have quiet: "no_new_exception_location (fst instance2) [SetMemory 8192 [1]]"
    "no_memory_payload []"
    by (simp_all add: no_new_exception_location_def no_memory_payload_def SetMemory_fields)
  have stored: "size' (after_events instance2 [SetMemory 8192 [1]]) = 4132"
    by (simp add: after_events_fields instance2_fields)
  have shape: "[SetMemory 0 [1]] = [] @ SetMemory 0 [1] # []"
    by simp
  show ?thesis
    using fetch_on_changed_range [OF alloc wide fit(1) rows,
        of "[]" "SetMemory 0 [1]" "[]" "[1]"]
      fetch_on_changed_range [OF alloc wide fit(2) rows]
      fetch_on_changed_range [OF alloc wide fit(3) rows]
    by (simp add: alloc wide fit rows quiet stored instance2_parsed instance2_fields
        after_events_single_SetMemory SetMemory_fields after_events_Nil)
qed

subsection \<open>Exception locations\<close>



text \<open>
  C10: a created instance stores the exception location 0, so a \<open>SetExceptionLocation\<close>
  event with the address 0, or with no address field, leaves the instance as it is: the
  request flag stays clear, and a cycle whose batch holds only such events and whose parsed
  text equals the stored pair writes no \<open>GetMemory\<close> event.
\<close>

theorem zero_exception_location_is_no_change:
  assumes "createInstance p q m = Some st"
    and "\<forall>ev \<in> set evs. event_type ev = PDEventType_SetExceptionLocation \<and> event_address ev = 0"
    and "parsed_address (fst st) ui = sa (fst st)"
    and "parsed_size (fst st) ui = size' (fst st)"
  shows "exceptionLocation (fst st) = 0
       \<and> (\<forall>ev \<in> set evs. updateExceptionLocation (fst st) ev = fst st)
       \<and> \<not> requestData (after_events st evs)
       \<and> exceptionLocation (after_events st evs) = 0
       \<and> events_written (update st ui evs) = []"
proof -
  let ?s0 = "((fst st)\<lparr>requestData := False\<rparr>, snd st)"
  have zero: "exceptionLocation (fst st) = 0" and alloc: "data (fst st) \<noteq> 0"
    using createInstance_Some [OF assms(1)] by simp_all
  have same: "\<forall>ev \<in> set evs. updateExceptionLocation (fst st) ev = fst st"
    using assms(2) zero by (simp add: updateExceptionLocation_def event_address_def)
  have no_new: "no_new_exception_location (fst ?s0) evs"
    using assms(2) zero by (simp add: no_new_exception_location_def list_all_iff)
  have no_mem: "no_memory_payload evs"
    using assms(2) by (simp add: no_memory_payload_def list_all_iff)
  have quiet: "\<not> requestData (after_events st evs) \<and> exceptionLocation (after_events st evs) = 0"
    using process_events_no_new_exception [OF no_new] zero by (simp add: after_events_def)
  have stored: "sa (after_events st evs) = sa (fst st)"
    using process_events_no_memory_payload [OF no_mem, of ?s0] by (simp add: after_events_def)
  have alloc': "data (after_events st evs) \<noteq> 0"
    using alloc by (simp add: after_events_fields)
  have "\<not> requestData (compared (after_events st evs) ui)"
    using quiet stored assms(3,4)
    by (simp add: compared_result [OF alloc'] parsed_after_events after_events_fields)
  then have "events_written (update st ui evs) = []"
    by (simp add: events_written_update)
  then show ?thesis
    using zero same quiet by simp
qed

theorem zero_exception_location_is_no_change_witness:
  "createInstance 4096 1048576 zero_memory = Some instance0
   \<and> event_type (Event PDEventType_SetExceptionLocation [] []) = PDEventType_SetExceptionLocation
   \<and> event_address (Event PDEventType_SetExceptionLocation [] []) = 0
   \<and> event_type (Event PDEventType_SetExceptionLocation [(''address'', 0)] [])
       = PDEventType_SetExceptionLocation
   \<and> event_address (Event PDEventType_SetExceptionLocation [(''address'', 0)] []) = 0
   \<and> parsed_address (fst instance0) (edits None (Some ''400'')) = sa (fst instance0)
   \<and> parsed_size (fst instance0) (edits None (Some ''400'')) = size' (fst instance0)
   \<and> exceptionLocation (fst instance0) = 0
   \<and> updateExceptionLocation (fst instance0) (Event PDEventType_SetExceptionLocation [] [])
       = fst instance0
   \<and> updateExceptionLocation (fst instance0)
        (Event PDEventType_SetExceptionLocation [(''address'', 0)] [])
       = fst instance0
   \<and> events_written (update instance0 (edits None (Some ''400''))
            [Event PDEventType_SetExceptionLocation [] [],
             Event PDEventType_SetExceptionLocation [(''address'', 0)] []])
       = []"
proof -
  let ?e1 = "Event PDEventType_SetExceptionLocation [] []"
  let ?e2 = "Event PDEventType_SetExceptionLocation [(''address'', 0)] []"
  let ?ui = "edits None (Some ''400'')"
  have addr: "event_address ?e1 = 0" "event_address ?e2 = 0"
    by (simp_all add: event_address_def PDRead_find_u64_def)
  have batch: "\<forall>ev \<in> set [?e1, ?e2].
      event_type ev = PDEventType_SetExceptionLocation \<and> event_address ev = 0"
    using addr by simp
  have pa: "parsed_address (fst instance0) ?ui = sa (fst instance0)"
    by (simp add: parsed_edits createInstance_Some [OF instance0_eq] strtol16_default_address)
  have ps: "parsed_size (fst instance0) ?ui = size' (fst instance0)"
    by (simp add: parsed_edits createInstance_Some [OF instance0_eq] strtol16_defs)
  show ?thesis
    using zero_exception_location_is_no_change [OF instance0_eq batch pa ps]
    by (simp add: instance0_eq addr pa ps)
qed

subsection \<open>Text that is no number\<close>

lemma strtol16_no_conversion:
  assumes "no_conversion s"
  shows "strtol16 s = 0"
proof -
  obtain neg t where sign: "strtol_sign (dropWhile isspace s) = (neg, t)"
    by (cases "strtol_sign (dropWhile isspace s)")
  have "strtol_digits 0 (strtol_prefix t) = 0"
  proof (cases t)
    case Nil
    then show ?thesis by (simp add: strtol_prefix_def)
  next
    case (Cons c r)
    then have none: "hexval c = None"
      using assms sign by (simp add: no_conversion_def)
    then have "c \<noteq> CHR ''0''"
      by (auto simp add: hexval_def)
    then have "strtol_prefix t = t"
      using Cons by (simp add: strtol_prefix_def split: list.splits)
    then show ?thesis
      using Cons none by simp
  qed
  then show ?thesis
    by (simp add: strtol16_def sign LONG_MAX_def LONG_MIN_def)
qed

lemma strtol_digits_stop:
  "hexval c = None \<Longrightarrow> strtol_digits acc (u @ c # r) = strtol_digits acc u"
  by (induction u arbitrary: acc) (simp_all split: option.splits)

lemma strtol_sign_append:
  assumes "ws \<noteq> []"
  shows "strtol_sign (ws @ ys) = (fst (strtol_sign ws), snd (strtol_sign ws) @ ys)"
  using assms by (cases ws) (simp_all add: strtol_sign_def)

lemma strtol_prefix_append:
  assumes "t \<noteq> []" and "\<not> (t = ''0'' \<and> (c = CHR ''x'' \<or> c = CHR ''X''))"
  shows "strtol_prefix (t @ c # r) = strtol_prefix t @ c # r"
proof (cases t)
  case Nil
  then show ?thesis using assms(1) by simp
next
  case outer: (Cons a rest)
  show ?thesis
  proof (cases rest)
    case Nil
    then show ?thesis
      using outer assms(2) by (auto simp add: strtol_prefix_def)
  next
    case (Cons b rest')
    then show ?thesis
      using outer by (simp add: strtol_prefix_def)
  qed
qed

lemma strtol16_ends_number:
  assumes "ends_number s c"
  shows "strtol16 (s @ c # r) = strtol16 s"
proof -
  let ?ws = "dropWhile isspace s"
  let ?t = "snd (strtol_sign ?ws)"
  have conv: "\<not> no_conversion s" and stop: "hexval c = None"
    and no_prefix: "\<not> (?t = ''0'' \<and> (c = CHR ''x'' \<or> c = CHR ''X''))"
    using assms by (simp_all add: ends_number_def)
  have t_ne: "?t \<noteq> []"
    using conv by (auto simp add: no_conversion_def split: list.splits)
  have ws_ne: "?ws \<noteq> []"
  proof
    assume empty: "?ws = []"
    have "?t = []"
      unfolding empty by (simp add: strtol_sign_def)
    then show False
      using t_ne by simp
  qed
  then have "hd ?ws \<in> set s" and "\<not> isspace (hd ?ws)"
    using hd_dropWhile [of isspace s] set_dropWhileD [of "hd ?ws" isspace s] by simp_all
  then have drop: "dropWhile isspace (s @ c # r) = ?ws @ c # r"
    by (rule dropWhile_append1)
  have sign: "strtol_sign (?ws @ c # r) = (fst (strtol_sign ?ws), ?t @ c # r)"
    by (rule strtol_sign_append [OF ws_ne])
  have prefix: "strtol_prefix (?t @ c # r) = strtol_prefix ?t @ c # r"
    by (rule strtol_prefix_append [OF t_ne no_prefix])
  have digits: "strtol_digits 0 (strtol_prefix ?t @ c # r) = strtol_digits 0 (strtol_prefix ?t)"
    by (rule strtol_digits_stop [OF stop])
  show ?thesis
    by (simp add: strtol16_def drop sign prefix digits split_beta)
qed

lemma parsed_texts:
  "parsed_address d ui = word_of_int (strtol16 (address_text d ui))"
  "parsed_size d ui = word_of_int (strtol16 (size_text d ui))"
  by (simp_all add: parsed_address_def parsed_size_def address_text_def size_text_def)

text \<open>
  C7, as stated, fails: \<open>strtol\<close> reports no error for a text without digits, it returns
  0. With the address \<open>0x2000\<close> stored, a cycle in which the address field is empty stores
  the address 0 and requests it; a size text \<open>zz\<close> stores the size 0.
\<close>

theorem malformed_text_counterexample:
  "sa (fst instance2) = 8192
   \<and> sa (fst (instance_after (update instance2 (edits (Some []) None) []))) = 0
   \<and> events_written (update instance2 (edits (Some []) None) [])
       = [Event PDEventType_GetMemory [(''address_start'', 0), (''size'', 4132)] []]
   \<and> size' (fst instance2) = 4132
   \<and> size' (fst (instance_after (update instance2 (edits None (Some ''zz'')) []))) = 0"
proof -
  let ?u1 = "edits (Some []) None"
  let ?u2 = "edits None (Some ''zz'')"
  have alloc: "data (fst instance2) \<noteq> 0"
    by (simp add: instance2_fields)
  have alloc': "data (after_events instance2 []) \<noteq> 0"
    by (simp add: after_events_fields instance2_fields)
  have wide: "36 \<le> windowSize_x ?u1"
    by (simp add: no_edit_window)
  have p1: "parsed_address (fst instance2) ?u1 = 0" "parsed_size (fst instance2) ?u1 = 4132"
    by (simp_all add: parsed_edits instance2_fields strtol16_empty strtol16_default_size)
  have p2: "parsed_size (fst instance2) ?u2 = 0"
    by (simp add: parsed_edits strtol16_defs)
  have "sa (fst (instance_after (update instance2 ?u1 []))) = 0"
    by (simp add: instance_after_update no_edit_runs compared_result [OF alloc']
        parsed_after_events p1)
  moreover have "events_written (update instance2 ?u1 []) = [GetMemory 0 4132]"
    unfolding events_written_allocated [OF alloc wide]
    by (simp add: p1 after_events_Nil instance2_fields)
  moreover have "size' (fst (instance_after (update instance2 ?u2 []))) = 0"
    by (simp add: instance_after_update no_edit_runs compared_result [OF alloc']
        parsed_after_events p2)
  ultimately show ?thesis
    by (simp add: instance2_fields GetMemory_def)
qed

text \<open>
  C7, amended: in every update cycle that runs to its end (the buffer allocated, the
  window at least 36 pixels wide, the accesses inside the buffers), whatever the address
  and size text fields hold, parsing reports no error: each field is read as
  \<open>strtol(text, 0, 16)\<close> reads it, the stored address and size become the parsed values,
  and the request flag is set whenever a parsed value differs from the stored one, as the
  inbound events of the cycle leave it (or an exception event of the batch had set the
  flag). A text in which, after leading white space
  and an optional sign, no hexadecimal digit follows (the empty text, \<open>zz\<close>) reads as 0;
  a text that goes on after a number with a char that is no hexadecimal digit (\<open>12g4\<close>;
  the \<open>x\<close> after a lone \<open>0\<close> apart) reads as the text before that char does.
\<close>

theorem text_fields_parse_without_error:
  assumes "data (fst st) \<noteq> 0" and "36 \<le> windowSize_x ui"
    and "payloads_fit evs" and "rows_fit (fst st) ui"
  shows "update st ui evs \<noteq> Inl DivisionByZero
       \<and> sa (fst (instance_after (update st ui evs)))
           = word_of_int (strtol16 (address_text (fst st) ui))
       \<and> size' (fst (instance_after (update st ui evs)))
           = word_of_int (strtol16 (size_text (fst st) ui))
       \<and> requestData (fst (instance_after (update st ui evs)))
           = (requestData (after_events st evs)
              \<or> sa (after_events st evs) \<noteq> word_of_int (strtol16 (address_text (fst st) ui))
              \<or> size' (fst st) \<noteq> word_of_int (strtol16 (size_text (fst st) ui)))
       \<and> (no_conversion s \<longrightarrow> strtol16 s = 0)
       \<and> (ends_number s c \<longrightarrow> strtol16 (s @ c # r) = strtol16 s)"
proof -
  have alloc: "data (after_events st evs) \<noteq> 0"
    using assms(1) by (simp add: after_events_fields)
  have runs: "\<not> cycle_faults st ui"
    using assms(2) by (simp add: cycle_faults_def)
  have returned: "update st ui evs \<noteq> Inl DivisionByZero"
    using update_returns [OF runs, of evs] by auto
  show ?thesis
    using returned
    by (simp add: instance_after_update [OF runs] compared_result [OF alloc]
        parsed_after_events parsed_texts [symmetric] strtol16_no_conversion
        strtol16_ends_number after_events_fields)
qed

theorem text_fields_parse_without_error_witness:
  "data (fst instance2) \<noteq> 0
   \<and> 36 \<le> windowSize_x (edits (Some []) (Some ''12g4''))
   \<and> payloads_fit []
   \<and> rows_fit (fst instance2) (edits (Some []) (Some ''12g4''))
   \<and> no_conversion []
   \<and> no_conversion ''zz''
   \<and> ends_number ''12'' CHR ''g''
   \<and> strtol16 [] = 0
   \<and> strtol16 ''zz'' = 0
   \<and> strtol16 ''12g4'' = strtol16 ''12''
   \<and> strtol16 ''12'' = 18
   \<and> sa (fst (instance_after (update instance2 (edits (Some []) (Some ''12g4'')) []))) = 0
   \<and> size' (fst (instance_after (update instance2 (edits (Some []) (Some ''12g4'')) []))) = 18
   \<and> requestData (fst (instance_after (update instance2 (edits (Some []) (Some ''12g4'')) [])))"
proof -
  let ?ui = "edits (Some []) (Some ''12g4'')"
  have alloc: "data (fst instance2) \<noteq> 0"
    by (simp add: instance2_fields)
  have wide: "36 \<le> windowSize_x ?ui"
    by (simp add: no_edit_window)
  have fit: "payloads_fit []"
    by (simp add: payloads_fit_def)
  have vals: "strtol16 ''12g4'' = 18" "strtol16 ''12'' = 18"
    by (simp_all add: strtol16_defs)
  have rows: "rows_fit (fst instance2) ?ui"
    by (simp add: rows_fit_def Let_def edits_def input_text_def vals
        drawableChars_def drawableLineCount_def c_div_def to_int32_def capacity_def)
  have texts: "address_text (fst instance2) ?ui = []" "size_text (fst instance2) ?ui = ''12g4''"
    by (simp_all add: address_text_def size_text_def edits_def input_text_def)
  have kinds: "no_conversion []" "no_conversion ''zz''" "ends_number ''12'' CHR ''g''"
    by (simp_all add: ends_number_def no_conversion_def strtol_sign_def isspace_def hexval_def)
  show ?thesis
    using text_fields_parse_without_error [OF alloc wide fit rows, of "[]" "CHR ''g''" "''4''"]
      text_fields_parse_without_error [OF alloc wide fit rows, of "''zz''" "CHR ''g''" "''4''"]
      text_fields_parse_without_error [OF alloc wide fit rows, of "''12''" "CHR ''g''" "''4''"]
      kinds
    by (simp add: alloc wide fit rows texts vals strtol16_empty after_events_Nil
        instance2_fields)
qed

subsection \<open>Incoming memory\<close>

lemma updateMemory_memory:
  assumes "PDRead_find_data ev ''data'' = Some payload"
  shows "snd (updateMemory (d, m) ev) a =
     (if data d \<le> a \<and> a < data d + length payload then payload ! (a - data d)
      else if oldData d \<le> a \<and> a < oldData d + length payload then m (data d + (a - oldData d))
      else m a)"
proof -
  have inside: "a - oldData d < length payload"
    if "oldData d \<le> a" and "a < oldData d + length payload"
    using that by arith
  show ?thesis
    using assms inside by (simp add: updateMemory_def Let_def memcpy_def read_bytes_def)
qed

lemma updateMemory_instance:
  assumes "PDRead_find_data ev ''data'' = Some payload"
  shows "fst (updateMemory (d, m) ev) = d\<lparr>sa := event_address ev\<rparr>"
  using assms by (simp add: updateMemory_def Let_def event_address_def)

lemma instance0_parts:
  "data (fst instance0) = 4096"
  "oldData (fst instance0) = 1048576"
  "snd instance0 = memset 1048576 0xff capacity (memset 4096 0xff capacity zero_memory)"
  using createInstance_Some [OF instance0_eq] by simp_all

lemma instance0_memory:
  "snd instance0 a =
     (if 1048576 \<le> a \<and> a < 1048576 + capacity then 0xff
      else if 4096 \<le> a \<and> a < 4096 + capacity then 0xff else 0)"
  by (simp add: instance0_parts(3) memset_def zero_memory_def)

lemma buffer_nth:
  assumes "i < capacity"
  shows "current_buffer st ! i = snd st (data (fst st) + i)"
    and "previous_buffer st ! i = snd st (oldData (fst st) + i)"
  using assms by (simp_all add: current_buffer_def previous_buffer_def read_bytes_def)

lemma buffer_length:
  "length (current_buffer st) = capacity" "length (previous_buffer st) = capacity"
  by (simp_all add: current_buffer_def previous_buffer_def read_bytes_def)


lemma updateMemory_bytes:
  assumes "PDRead_find_data ev ''data'' = Some payload"
  shows "snd (updateMemory st ev) a =
     (if data (fst st) \<le> a \<and> a < data (fst st) + length payload
      then payload ! (a - data (fst st))
      else if oldData (fst st) \<le> a \<and> a < oldData (fst st) + length payload
      then snd st (data (fst st) + (a - oldData (fst st)))
      else snd st a)"
  using updateMemory_memory [OF assms, of "fst st" "snd st" a] by simp

lemma overlong_payload_bytes:
  "length overlong_payload = capacity + 1"
  "i \<le> capacity \<Longrightarrow> overlong_payload ! i = 1"
proof -
  show "length overlong_payload = capacity + 1"
    by (simp add: overlong_payload_def)
  show "overlong_payload ! i = 1" if "i \<le> capacity"
  proof -
    have "i < capacity + 1"
      using that by simp
    then show ?thesis
      unfolding overlong_payload_def by (rule nth_replicate)
  qed
qed

text \<open>
  C1 on the code: \<open>updateMemory\<close> has no check of the payload's length and no result. On
  the created instance, a payload of 128 KiB and one byte, all \<open>0x01\<close>, replaces every
  byte of the current buffer and also the byte behind its end.
\<close>

theorem overlong_payload_is_copied:
  "capacity < length overlong_payload
   \<and> current_buffer instance0 = replicate capacity 0xff
   \<and> current_buffer (updateMemory instance0 (SetMemory 0 overlong_payload))
       = replicate capacity 1
   \<and> snd instance0 (data (fst instance0) + capacity) = 0
   \<and> snd (updateMemory instance0 (SetMemory 0 overlong_payload))
        (data (fst instance0) + capacity) = 1"
proof -
  let ?ev = "SetMemory 0 overlong_payload"
  have same: "data (fst (updateMemory instance0 ?ev)) = data (fst instance0)"
    by (simp add: updateMemory_fields)
  have before: "current_buffer instance0 = replicate capacity 0xff"
    by (rule nth_equalityI)
      (simp_all add: buffer_length buffer_nth instance0_parts(1) instance0_memory capacity_def)
  have after: "current_buffer (updateMemory instance0 ?ev) = replicate capacity 1"
    by (rule nth_equalityI)
      (simp_all add: buffer_length buffer_nth same updateMemory_bytes [OF SetMemory_fields(1)]
        overlong_payload_bytes)
  have behind: "snd instance0 (data (fst instance0) + capacity) = 0"
    by (simp add: instance0_parts(1) instance0_memory capacity_def)
  have behind': "snd (updateMemory instance0 ?ev) (data (fst instance0) + capacity) = 1"
    by (simp add: updateMemory_bytes [OF SetMemory_fields(1)] overlong_payload_bytes)
  show ?thesis
    using before after behind behind' by (simp add: overlong_payload_bytes)
qed

text \<open>
  C4, as stated, fails: only as many bytes as the payload has are copied from the current
  to the previous buffer. After a payload of four bytes and then one of two bytes, the
  previous buffer still holds \<open>0xff\<close> at offset 2, where the current buffer held 0 before
  the second call.
\<close>

theorem previous_buffer_counterexample:
  "previous_buffer (updateMemory (updateMemory instance0 (SetMemory 0 [0, 0, 0, 0]))
                                 (SetMemory 0 [1, 1])) ! 2 = 0xff
   \<and> current_buffer (updateMemory instance0 (SetMemory 0 [0, 0, 0, 0])) ! 2 = 0"
proof -
  let ?st1 = "updateMemory instance0 (SetMemory 0 [0, 0, 0, 0])"
  have ptr1: "data (fst ?st1) = 4096" "oldData (fst ?st1) = 1048576"
    by (simp_all add: updateMemory_fields instance0_parts)
  have ptr2: "oldData (fst (updateMemory ?st1 (SetMemory 0 [1, 1]))) = 1048576"
    by (simp add: updateMemory_fields instance0_parts)
  have two: "(2::nat) < capacity"
    by (simp add: capacity_def)
  have cur: "current_buffer ?st1 ! 2 = 0"
    by (simp add: buffer_nth [OF two] ptr1 updateMemory_bytes [OF SetMemory_fields(1)]
        instance0_parts)
  have prev: "previous_buffer (updateMemory ?st1 (SetMemory 0 [1, 1])) ! 2 = 0xff"
    by (simp add: buffer_nth [OF two] ptr1 ptr2 updateMemory_bytes [OF SetMemory_fields(1)]
        instance0_parts(1,2) instance0_memory capacity_def)
  show ?thesis
    using cur prev by simp
qed

text \<open>
  C4, amended: for a payload \<open>p\<close> of at most 128 KiB, the first \<open>len(p)\<close> bytes of the
  current buffer are copied into the previous buffer and then \<open>p\<close> is written into the
  current buffer from offset 0. After the call the previous buffer equals the pre-call
  current buffer on \<open>[0, len(p))\<close> and the pre-call previous buffer elsewhere, and the
  current buffer equals \<open>p\<close> on \<open>[0, len(p))\<close> and the pre-call current buffer elsewhere.
\<close>

theorem incoming_payload_copies_prefix:
  assumes "PDRead_find_data ev ''data'' = Some payload"
    and "length payload \<le> capacity"
    and "buffers_apart (fst st)"
  shows "previous_buffer (updateMemory st ev)
           = take (length payload) (current_buffer st) @ drop (length payload) (previous_buffer st)
       \<and> current_buffer (updateMemory st ev)
           = payload @ drop (length payload) (current_buffer st)"
proof -
  let ?n = "length payload"
  let ?st' = "updateMemory st ev"
  have ptrs: "data (fst ?st') = data (fst st)" "oldData (fst ?st') = oldData (fst st)"
    by (simp_all add: updateMemory_fields)
  have apart: "data (fst st) + capacity \<le> oldData (fst st)
      \<or> oldData (fst st) + capacity \<le> data (fst st)"
    using assms(3) by (simp add: buffers_apart_def)
  have prev: "previous_buffer ?st' ! i
      = (take ?n (current_buffer st) @ drop ?n (previous_buffer st)) ! i" if "i < capacity" for i
  proof -
    have outside: "(data (fst st) \<le> oldData (fst st) + i
        \<and> oldData (fst st) + i < data (fst st) + ?n) = False"
      using apart assms(2) that by arith
    have "previous_buffer ?st' ! i
        = (if i < ?n then snd st (data (fst st) + i) else snd st (oldData (fst st) + i))"
      by (simp add: buffer_nth(2) [OF that] ptrs updateMemory_bytes [OF assms(1)] outside)
    also have "\<dots> = (take ?n (current_buffer st) @ drop ?n (previous_buffer st)) ! i"
      using that assms(2)
      by (simp add: nth_append buffer_length buffer_nth min_def)
    finally show ?thesis .
  qed
  have cur: "current_buffer ?st' ! i = (payload @ drop ?n (current_buffer st)) ! i"
    if "i < capacity" for i
  proof -
    have outside: "(oldData (fst st) \<le> data (fst st) + i
        \<and> data (fst st) + i < oldData (fst st) + ?n) = False"
      using apart assms(2) that by arith
    have "current_buffer ?st' ! i = (if i < ?n then payload ! i else snd st (data (fst st) + i))"
      by (simp add: buffer_nth(1) [OF that] ptrs updateMemory_bytes [OF assms(1)] outside)
    also have "\<dots> = (payload @ drop ?n (current_buffer st)) ! i"
      using that assms(2)
      by (simp add: nth_append buffer_length buffer_nth)
    finally show ?thesis .
  qed
  have "previous_buffer ?st'
      = take ?n (current_buffer st) @ drop ?n (previous_buffer st)"
    using assms(2) by (intro nth_equalityI) (simp_all add: buffer_length prev)
  moreover have "current_buffer ?st' = payload @ drop ?n (current_buffer st)"
    using assms(2) by (intro nth_equalityI) (simp_all add: buffer_length cur)
  ultimately show ?thesis
    by simp
qed


lemma instance0_filled_parts:
  "data (fst instance0_filled) = 4096"
  "oldData (fst instance0_filled) = 1048576"
  by (simp_all add: instance0_filled_def updateMemory_fields instance0_parts)

theorem incoming_payload_copies_prefix_witness:
  "PDRead_find_data (SetMemory 0 [1, 2]) ''data'' = Some [1, 2]
   \<and> length [1, 2 :: 8 word] \<le> capacity
   \<and> buffers_apart (fst instance0_filled)
   \<and> current_buffer instance0_filled ! 0 = 0
   \<and> previous_buffer instance0_filled ! 0 = 0xff
   \<and> previous_buffer (updateMemory instance0_filled (SetMemory 0 [1, 2]))
       = take 2 (current_buffer instance0_filled) @ drop 2 (previous_buffer instance0_filled)
   \<and> current_buffer (updateMemory instance0_filled (SetMemory 0 [1, 2]))
       = [1, 2] @ drop 2 (current_buffer instance0_filled)
   \<and> previous_buffer (updateMemory instance0_filled (SetMemory 0 [1, 2])) ! 0 = 0
   \<and> previous_buffer (updateMemory instance0_filled (SetMemory 0 [1, 2])) ! 3 = 0xff
   \<and> current_buffer (updateMemory instance0_filled (SetMemory 0 [1, 2])) ! 0 = 1
   \<and> current_buffer (updateMemory instance0_filled (SetMemory 0 [1, 2])) ! 3 = 0"
proof -
  let ?st' = "updateMemory instance0_filled (SetMemory 0 [1, 2])"
  have short: "length [1, 2 :: 8 word] \<le> capacity"
    by (simp add: capacity_def)
  have apart: "buffers_apart (fst instance0_filled)"
    by (simp add: buffers_apart_def instance0_filled_parts capacity_def)
  have small: "(0::nat) < capacity" "(3::nat) < capacity"
    by (simp_all add: capacity_def)
  have ptrs: "data (fst ?st') = 4096" "oldData (fst ?st') = 1048576"
    by (simp_all add: updateMemory_fields instance0_filled_parts)
  have before: "current_buffer instance0_filled ! 0 = 0"
    "previous_buffer instance0_filled ! 0 = 0xff"
    by (simp_all add: buffer_nth small instance0_filled_def updateMemory_fields
        updateMemory_bytes [OF SetMemory_fields(1)] instance0_parts(1,2) instance0_memory
        capacity_def)
  have after: "previous_buffer ?st' ! 0 = 0" "previous_buffer ?st' ! 3 = 0xff"
    "current_buffer ?st' ! 0 = 1" "current_buffer ?st' ! 3 = 0"
    by (simp_all add: buffer_nth small ptrs instance0_filled_def updateMemory_fields
        updateMemory_bytes [OF SetMemory_fields(1)] instance0_parts(1,2) instance0_memory
        capacity_def)
  show ?thesis
    using incoming_payload_copies_prefix [OF SetMemory_fields(1) short apart, of 0]
      short apart before after
    by (simp add: SetMemory_fields numeral_2_eq_2)
qed

subsection \<open>The requested size and the buffers\<close>

lemma instance3_eq:
  "instance3 = (compared (after_events instance1 []) (edits None (Some ''40000'')), snd instance0)"
  by (simp add: instance3_def instance_after_update no_edit_runs memory_after_events_Nil
      instance1_eq)

lemma instance3_parts:
  "data (fst instance3) = 4096"
  "snd instance3 = snd instance0"
  by (simp_all add: instance3_eq compared_keeps after_events_fields instance1_fields)

lemma requested_payload_bytes:
  "length requested_payload = 262144"
  "i < 262144 \<Longrightarrow> requested_payload ! i = 1"
  by (simp_all add: requested_payload_def)

text \<open>
  C6 on the code: the parsed size is stored and requested as it is. With the size text
  \<open>40000\<close> the instance stores and requests \<open>0x40000 = 262144\<close> bytes, twice the 128 KiB
  of each buffer, and the answer to that request is copied past the end of the buffer.
\<close>

theorem size_text_is_not_clamped:
  "size' (fst instance3) = 262144
   \<and> events_written (update instance1 (edits None (Some ''40000'')) [])
       = [GetMemory 0 262144]
   \<and> GetMemory 0 262144
       = Event PDEventType_GetMemory [(''address_start'', 0), (''size'', 262144)] []
   \<and> capacity < unat (262144 :: 64 word)
   \<and> length requested_payload = unat (262144 :: 64 word)
   \<and> snd instance3 (data (fst instance3) + capacity) = 0
   \<and> snd (instance_after (update instance3 no_edit [SetMemory 0 requested_payload]))
        (data (fst instance3) + capacity) = 1"
proof -
  let ?ui = "edits None (Some ''40000'')"
  have alloc: "data (fst instance1) \<noteq> 0"
    by (simp add: instance1_fields)
  have alloc': "data (after_events instance1 []) \<noteq> 0"
    by (simp add: after_events_fields instance1_fields)
  have wide: "36 \<le> windowSize_x ?ui"
    by (simp add: no_edit_window)
  have pa: "parsed_address (fst instance1) ?ui = 0"
    by (simp add: parsed_edits instance1_fields strtol16_default_address)
  have ps: "parsed_size (fst instance1) ?ui = 262144"
    by (simp add: parsed_edits strtol16_defs)
  have stored: "size' (fst instance3) = 262144"
    by (simp add: instance3_eq compared_result [OF alloc'] parsed_after_events ps)
  have written: "events_written (update instance1 ?ui []) = [GetMemory 0 262144]"
    unfolding events_written_allocated [OF alloc wide]
    by (simp add: pa ps after_events_Nil instance1_fields)
  have before: "snd instance3 (data (fst instance3) + capacity) = 0"
    by (simp add: instance3_parts instance0_memory capacity_def)
  have after: "snd (instance_after (update instance3 no_edit [SetMemory 0 requested_payload]))
      (data (fst instance3) + capacity) = 1"
    by (simp add: instance_after_update no_edit_runs memory_after_events_def dispatch_def
        SetMemory_fields updateMemory_bytes [OF SetMemory_fields(1)] instance3_parts(1)
        requested_payload_bytes capacity_def)
  show ?thesis
    using stored written before after
    by (simp add: capacity_def requested_payload_bytes GetMemory_def)
qed

subsection \<open>Saving and loading the text fields\<close>

lemma length_encode_length: "length (encode_length w n) = w"
  by (induction w arbitrary: n) simp_all

lemma decode_encode_length:
  "n < 256 ^ w \<Longrightarrow> decode_length (encode_length w n) = n"
proof (induction w arbitrary: n)
  case 0
  then show ?case by simp
next
  case (Suc w)
  have "n div 256 < 256 ^ w"
    using Suc.prems by (simp add: less_mult_imp_div_less mult.commute)
  then have "decode_length (encode_length w (n div 256)) = n div 256"
    by (rule Suc.IH)
  then show ?case
    by simp
qed

lemma decode_text_length:
  assumes "0 < w" and "length str < 64"
  shows "decode_length (encode_length w (length str)) = length str"
proof -
  have "(256::nat) \<le> 256 ^ w"
    using assms(1) by (simp add: self_le_power)
  then have "length str < 256 ^ w"
    using assms(2) by simp
  then show ?thesis
    by (rule decode_encode_length)
qed

lemma length_write_string: "length (PDIO_write_string w str) = w + length str"
  by (simp add: PDIO_write_string_def length_encode_length)

lemma read_write_string:
  assumes "0 < w" and "length str < 64"
  shows "PDIO_read_string w failed (PDIO_write_string w str @ rest) dest 64 = (True, str, rest)"
  using assms(2)
  by (simp add: PDIO_read_string_def PDIO_write_string_def length_encode_length
      decode_text_length [OF assms] Let_def)

text \<open>
  C8: for text fields that fit their 64-char arrays, loading the bytes that \<open>saveState\<close>
  wrote restores both text fields, into whatever instance they are loaded and whatever a
  failed read would do.
\<close>

theorem save_load_roundtrip:
  assumes "0 < w" and "length (startAddress d) < 64" and "length (sizeText d) < 64"
  shows "startAddress (snd (loadState w failed d' (snd (saveState w d)))) = startAddress d
       \<and> sizeText (snd (loadState w failed d' (snd (saveState w d)))) = sizeText d"
proof -
  have first: "PDIO_read_string w failed (snd (saveState w d)) (startAddress d') 64
      = (True, startAddress d, PDIO_write_string w (sizeText d))"
    using read_write_string [OF assms(1,2)] by (simp add: saveState_def)
  have second: "PDIO_read_string w failed (PDIO_write_string w (sizeText d)) dest 64
      = (True, sizeText d, [])" for dest
    using read_write_string [OF assms(1,3), of failed "[]" dest] by simp
  show ?thesis
    by (simp add: loadState_def Let_def first second)
qed

theorem save_load_roundtrip_witness:
  "(0::nat) < 4
   \<and> length (startAddress (fst instance0)) < 64
   \<and> length (sizeText (fst instance0)) < 64
   \<and> startAddress (snd (loadState 4 failed_clears (fst instance2) (snd (saveState 4 (fst instance0)))))
       = ''0x00000000''
   \<and> sizeText (snd (loadState 4 failed_clears (fst instance2) (snd (saveState 4 (fst instance0)))))
       = ''1024''"
proof -
  have texts: "startAddress (fst instance0) = ''0x00000000''" "sizeText (fst instance0) = ''1024''"
    using createInstance_Some [OF instance0_eq] by simp_all
  have fits: "length (startAddress (fst instance0)) < 64" "length (sizeText (fst instance0)) < 64"
    by (simp_all add: texts)
  have width: "(0::nat) < 4"
    by simp
  show ?thesis
    using save_load_roundtrip [OF width fits, of failed_clears "fst instance2"] fits
    by (simp add: texts)
qed

lemma read_truncated_string:
  assumes "0 < w" and "length str < 64" and "k < w + length str"
  shows "fst (PDIO_read_string w failed (take k (PDIO_write_string w str @ rest)) dest 64) = False"
proof (cases "k < w")
  case True
  then have "length (take k (PDIO_write_string w str @ rest)) < w"
    by simp
  then show ?thesis
    by (simp only: PDIO_read_string_def if_True fst_conv)
next
  case False
  have prefix: "take w (take k (PDIO_write_string w str @ rest)) = encode_length w (length str)"
    using False by (simp add: PDIO_write_string_def length_encode_length min_def)
  have short: "length (drop w (take k (PDIO_write_string w str @ rest))) < length str"
    using False assms(3) by (simp add: length_write_string)
  have enough: "\<not> length (take k (PDIO_write_string w str @ rest)) < w"
    using False assms(3) by (simp add: length_write_string)
  show ?thesis
    unfolding PDIO_read_string_def Let_def
    using enough short
    by (simp only: prefix decode_text_length [OF assms(1,2)] if_False if_True fst_conv)
qed

lemma loadState_first_field:
  assumes "PDIO_read_string w failed blob (startAddress d) 64 = (True, t, rest)"
  shows "startAddress (snd (loadState w failed d blob)) = t"
  using assms by (simp add: loadState_def Let_def split: prod.splits)

lemma loadState_returns: "fst (loadState w failed d blob) = 1"
  by (simp add: loadState_def Let_def split: prod.splits)

text \<open>
  C9, as stated, fails: \<open>loadState\<close> looks at the status of neither read and returns 1 in
  every case. A blob that ends after the first field is applied as far as it goes: the
  address text of the created instance, which was the default, becomes \<open>2000\<close>, whether
  a failed read leaves its destination alone or empties it.
\<close>

theorem truncated_load_counterexample:
  "startAddress (fst instance0) = ''0x00000000''
   \<and> fst (PDIO_read_string 4 failed_keeps [] ''1024'' 64) = False
   \<and> fst (loadState 4 failed_keeps (fst instance0) (PDIO_write_string 4 ''2000'')) = 1
   \<and> startAddress (snd (loadState 4 failed_keeps (fst instance0) (PDIO_write_string 4 ''2000'')))
       = ''2000''
   \<and> fst (loadState 4 failed_clears (fst instance0) (PDIO_write_string 4 ''2000'')) = 1
   \<and> startAddress (snd (loadState 4 failed_clears (fst instance0) (PDIO_write_string 4 ''2000'')))
       = ''2000''"
proof -
  have first: "PDIO_read_string 4 failed (PDIO_write_string 4 ''2000'') dest 64
      = (True, ''2000'', [])" for failed dest
    using read_write_string [of 4 "''2000''" failed "[]" dest] by simp
  have second: "fst (PDIO_read_string 4 failed_keeps [] ''1024'' 64) = False"
    by (simp add: PDIO_read_string_def)
  show ?thesis
    using second
    by (simp add: loadState_returns loadState_first_field [OF first]
        createInstance_Some [OF instance0_eq])
qed

text \<open>
  C9, amended: for every session blob whose bytes end before both text fields have been
  read (a proper prefix of saved session bytes), \<open>loadState\<close> returns 1 to the caller and
  raises nothing; when the blob holds the first field completely, that field becomes the
  address text although the second read fails, so the load is not undone and no default
  is restored.
\<close>

theorem truncated_load_applies_first_field:
  assumes "0 < w" and "length address < 64" and "length sz < 64"
    and "k < length (PDIO_write_string w address @ PDIO_write_string w sz)"
  shows "fst (loadState w failed d (take k (PDIO_write_string w address @ PDIO_write_string w sz))) = 1
       \<and> (w + length address \<le> k \<longrightarrow>
            fst (PDIO_read_string w failed
                   (take (k - (w + length address)) (PDIO_write_string w sz)) dest 64) = False
            \<and> startAddress (snd (loadState w failed d
                   (take k (PDIO_write_string w address @ PDIO_write_string w sz)))) = address)"
proof -
  let ?j = "k - (w + length address)"
  have applied: "startAddress (snd (loadState w failed d
      (take k (PDIO_write_string w address @ PDIO_write_string w sz)))) = address"
    if "w + length address \<le> k"
  proof -
    have split: "take k (PDIO_write_string w address @ PDIO_write_string w sz)
        = PDIO_write_string w address @ take ?j (PDIO_write_string w sz)"
      using that by (simp add: length_write_string)
    have "PDIO_read_string w failed
        (take k (PDIO_write_string w address @ PDIO_write_string w sz)) (startAddress d) 64
        = (True, address, take ?j (PDIO_write_string w sz))"
      unfolding split by (rule read_write_string [OF assms(1,2)])
    then show ?thesis
      by (rule loadState_first_field)
  qed
  have fails: "fst (PDIO_read_string w failed (take ?j (PDIO_write_string w sz)) dest 64) = False"
    if "w + length address \<le> k"
  proof -
    have "?j < w + length sz"
      using assms(4) that by (simp add: length_write_string)
    then show ?thesis
      using read_truncated_string [OF assms(1,3), of ?j failed "[]" dest] by simp
  qed
  show ?thesis
    using applied fails by (simp add: loadState_returns)
qed

theorem truncated_load_applies_first_field_witness:
  "(0::nat) < 4
   \<and> length ''2000'' < 64
   \<and> length ''800'' < 64
   \<and> 10 < length (PDIO_write_string 4 ''2000'' @ PDIO_write_string 4 ''800'')
   \<and> 4 + length ''2000'' \<le> (10::nat)
   \<and> fst (loadState 4 failed_clears (fst instance0)
             (take 10 (PDIO_write_string 4 ''2000'' @ PDIO_write_string 4 ''800''))) = 1
   \<and> fst (PDIO_read_string 4 failed_clears (take (10 - (4 + length ''2000''))
             (PDIO_write_string 4 ''800'')) ''1024'' 64) = False
   \<and> startAddress (snd (loadState 4 failed_clears (fst instance0)
             (take 10 (PDIO_write_string 4 ''2000'' @ PDIO_write_string 4 ''800'')))) = ''2000''"
proof -
  have width: "(0::nat) < 4" and fits: "length ''2000'' < 64" "length ''800'' < 64"
    by simp_all
  have k10: "10 < length (PDIO_write_string 4 ''2000'' @ PDIO_write_string 4 ''800'')"
    by (simp add: length_write_string)
  have whole: "4 + length ''2000'' \<le> (10::nat)"
    by simp
  show ?thesis
    using truncated_load_applies_first_field
        [OF width fits k10, of failed_clears "fst instance0" "''1024''"] k10 whole
    by simp
qed

end
